theory Spec2Isabelle
  imports Complex_Main "HOL-Library.Word" "HOL-Library.Sublist"
begin

section \<open>Bytes, buffers and JavaScript strings\<close>

text \<open>
  A Node \<^verbatim>\<open>Buffer\<close> (and a typed array of bytes) is a list of 8-bit words.
  JavaScript strings that hold file names, MIME types, error messages and text are
  lists of 8-bit characters; the string that \<^verbatim>\<open>validatePdfComplexity\<close> decodes
  from arbitrary bytes is a list of UTF-16 code units (natural numbers), because
  its regular expressions classify code units beyond that range.
\<close>

type_synonym byte = "8 word"
type_synonym buffer = "byte list"

text \<open>\<^verbatim>\<open>String.prototype.toLowerCase\<close> on one 8-bit code unit: A-Z and the
  Latin-1 capitals.\<close>

definition toLowerChar :: "char \<Rightarrow> char" where
  "toLowerChar c = (let n = (of_char c :: nat) in
     if (65 \<le> n \<and> n \<le> 90) \<or> (192 \<le> n \<and> n \<le> 222 \<and> n \<noteq> 215)
     then char_of (n + 32) else c)"

definition toLowerCase :: "string \<Rightarrow> string" where
  "toLowerCase s = map toLowerChar s"

text \<open>\<^verbatim>\<open>s.lastIndexOf(c)\<close>: the largest index holding \<open>c\<close>; \<open>None\<close> is the
  source's \<^verbatim>\<open>-1\<close>.\<close>

definition lastIndexOf :: "char \<Rightarrow> string \<Rightarrow> nat option" where
  "lastIndexOf c s = find (\<lambda>i. s ! i = c) (rev [0..<length s])"

text \<open>A template literal \<^verbatim>\<open>${n}\<close> of a non-negative integer: its decimal digits.\<close>

fun show_nat :: "nat \<Rightarrow> string" where
  "show_nat n =
    (if n < 10 then [''0123456789'' ! n]
     else show_nat (n div 10) @ [''0123456789'' ! (n mod 10)])"

declare show_nat.simps [simp del]

text \<open>\<^verbatim>\<open>haystack.includes(needle)\<close> is \<^const>\<open>sublist\<close> \<open>needle haystack\<close>.
  \<^verbatim>\<open>s.split(c)\<close> on a one-character separator:\<close>

fun splitOn :: "char \<Rightarrow> string \<Rightarrow> string list" where
  "splitOn c [] = [[]]"
| "splitOn c (x # xs) =
    (if x = c then [] # splitOn c xs
     else (case splitOn c xs of [] \<Rightarrow> [[x]] | l # ls \<Rightarrow> (x # l) # ls))"

text \<open>White space for \<^verbatim>\<open>trim()\<close> and for \<^verbatim>\<open>\s\<close>, on 8-bit code units.\<close>

definition is_space :: "char \<Rightarrow> bool" where
  "is_space c \<longleftrightarrow> (let n = (of_char c :: nat) in (9 \<le> n \<and> n \<le> 13) \<or> n = 32 \<or> n = 160)"

definition trim :: "string \<Rightarrow> string" where
  "trim s = rev (dropWhile is_space (rev (dropWhile is_space s)))"

text \<open>A loop that pushes one result per element and leaves at the first throw.\<close>

fun mapE :: "('a \<Rightarrow> 'e + 'b) \<Rightarrow> 'a list \<Rightarrow> 'e + 'b list" where
  "mapE f [] = Inr []"
| "mapE f (x # xs) =
    (case f x of
       Inl e \<Rightarrow> Inl e
     | Inr y \<Rightarrow> (case mapE f xs of Inl e \<Rightarrow> Inl e | Inr ys \<Rightarrow> Inr (y # ys)))"

text \<open>The same loop when a turn may also never return (\<open>None\<close>): the loop then
  never returns either.\<close>

fun mapEO :: "('a \<Rightarrow> ('e + 'b) option) \<Rightarrow> 'a list \<Rightarrow> ('e + 'b list) option" where
  "mapEO f [] = Some (Inr [])"
| "mapEO f (x # xs) =
    (case f x of
       None \<Rightarrow> None
     | Some (Inl e) \<Rightarrow> Some (Inl e)
     | Some (Inr y) \<Rightarrow>
         (case mapEO f xs of
            None \<Rightarrow> None
          | Some (Inl e) \<Rightarrow> Some (Inl e)
          | Some (Inr ys) \<Rightarrow> Some (Inr (y # ys))))"

section \<open>utils/fileValidator.ts\<close>

record MagicByteRule =
  bytes :: "byte list"
  offset :: "nat option"

record FileTypeDefinition =
  mimeTypes :: "string list"
  extensions :: "string list"
  magicBytes :: "MagicByteRule list"
  description :: string

text \<open>The table \<^verbatim>\<open>FILE_TYPE_DEFINITIONS\<close>, in the insertion order that
  \<^verbatim>\<open>Object.entries\<close> walks.\<close>

definition rule_at0 :: "byte list \<Rightarrow> MagicByteRule" where
  "rule_at0 bs = \<lparr>bytes = bs, offset = None\<rparr>"

definition FILE_TYPE_DEFINITIONS :: "(string \<times> FileTypeDefinition) list" where
  "FILE_TYPE_DEFINITIONS =
    [(''pdf'', \<lparr>mimeTypes = [''application/pdf''], extensions = [''.pdf''],
        magicBytes = [rule_at0 [0x25, 0x50, 0x44, 0x46, 0x2D]],
        description = ''PDF Document''\<rparr>),
     (''png'', \<lparr>mimeTypes = [''image/png''], extensions = [''.png''],
        magicBytes = [rule_at0 [0x89, 0x50, 0x4E, 0x47, 0x0D, 0x0A, 0x1A, 0x0A]],
        description = ''PNG Image''\<rparr>),
     (''jpeg'', \<lparr>mimeTypes = [''image/jpeg'', ''image/jpg''], extensions = [''.jpg'', ''.jpeg''],
        magicBytes =
          [rule_at0 [0xFF, 0xD8, 0xFF, 0xE0], rule_at0 [0xFF, 0xD8, 0xFF, 0xE1],
           rule_at0 [0xFF, 0xD8, 0xFF, 0xE2], rule_at0 [0xFF, 0xD8, 0xFF, 0xE3],
           rule_at0 [0xFF, 0xD8, 0xFF, 0xE8], rule_at0 [0xFF, 0xD8, 0xFF, 0xDB],
           rule_at0 [0xFF, 0xD8, 0xFF]],
        description = ''JPEG Image''\<rparr>)]"

definition matchesMagicBytes :: "buffer \<Rightarrow> MagicByteRule \<Rightarrow> bool" where
  "matchesMagicBytes buf rule =
    (let off = (case offset rule of None \<Rightarrow> 0 | Some n \<Rightarrow> n);
         requiredLength = off + length (bytes rule)
     in if length buf < requiredLength then False
        else list_all (\<lambda>i. buf ! (off + i) = bytes rule ! i) [0..<length (bytes rule)])"

definition detectFileType :: "buffer \<Rightarrow> string option" where
  "detectFileType buf =
    map_option fst
      (find (\<lambda>entry. list_ex (matchesMagicBytes buf) (magicBytes (snd entry)))
         FILE_TYPE_DEFINITIONS)"

definition getExtension :: "string \<Rightarrow> string" where
  "getExtension filename =
    (case lastIndexOf CHR ''.'' filename of
       None \<Rightarrow> []
     | Some lastDot \<Rightarrow>
         if lastDot = length filename - 1 then []
         else toLowerCase (drop lastDot filename))"

text \<open>The messages pushed onto \<^verbatim>\<open>errors\<close>, one constructor per template, with
  the values the template interpolates.\<close>

datatype validation_error =
    FileEmpty
  | FileTooSmall
  | UnknownContent
  | ContentNotAllowed string
  | InvalidMimeType string
  | InvalidExtension string
  | MimeTypeMismatch string string
  | ExtensionMismatch string string

record ValidationResult =
  isValid :: bool
  detectedType :: "string option"
  errors :: "validation_error list"

text \<open>\<^verbatim>\<open>allowedTypes.flatMap(t => FILE_TYPE_DEFINITIONS[t]?.f || [])\<close>\<close>

definition flatMapDefs :: "(FileTypeDefinition \<Rightarrow> string list) \<Rightarrow> string list \<Rightarrow> string list" where
  "flatMapDefs f allowedTypes =
    concat (map (\<lambda>t. case map_of FILE_TYPE_DEFINITIONS t of None \<Rightarrow> [] | Some d \<Rightarrow> f d)
      allowedTypes)"

definition validateFile :: "buffer \<Rightarrow> string \<Rightarrow> string \<Rightarrow> string list \<Rightarrow> ValidationResult" where
  "validateFile buf filename mimeType allowedTypes =
    (if length buf = 0 then \<lparr>isValid = False, detectedType = None, errors = [FileEmpty]\<rparr>
     else if length buf < 8 then \<lparr>isValid = False, detectedType = None, errors = [FileTooSmall]\<rparr>
     else
       let detected = detectFileType buf;
           e1 = (case detected of
                   None \<Rightarrow> [UnknownContent]
                 | Some t \<Rightarrow> if t \<in> set allowedTypes then [] else [ContentNotAllowed t]);
           allowedMimeTypes = flatMapDefs mimeTypes allowedTypes;
           e2 = (if toLowerCase mimeType \<in> set allowedMimeTypes then []
                 else [InvalidMimeType mimeType]);
           extension = getExtension filename;
           allowedExtensions = flatMapDefs extensions allowedTypes;
           e3 = (if extension \<noteq> [] \<and> extension \<notin> set allowedExtensions
                 then [InvalidExtension extension] else []);
           e4 = (case detected of
                   None \<Rightarrow> []
                 | Some t \<Rightarrow>
                     if t \<in> set allowedTypes then
                       (case map_of FILE_TYPE_DEFINITIONS t of
                          None \<Rightarrow> []
                        | Some d \<Rightarrow>
                            (if toLowerCase mimeType \<in> set (mimeTypes d) then []
                             else [MimeTypeMismatch (description d) mimeType]) @
                            (if extension \<noteq> [] \<and> extension \<notin> set (extensions d)
                             then [ExtensionMismatch (description d) extension] else []))
                     else []);
           errs = e1 @ e2 @ e3 @ e4
       in \<lparr>isValid = (length errs = 0), detectedType = detected, errors = errs\<rparr>)"

definition validatePdf :: "buffer \<Rightarrow> string \<Rightarrow> string \<Rightarrow> ValidationResult" where
  "validatePdf buf filename mimeType = validateFile buf filename mimeType [''pdf'']"

definition validateImage :: "buffer \<Rightarrow> string \<Rightarrow> string \<Rightarrow> ValidationResult" where
  "validateImage buf filename mimeType = validateFile buf filename mimeType [''png'', ''jpeg'']"

text \<open>An error that reports on the file extension (steps 3 and 4 of the source).\<close>

fun is_extension_error :: "validation_error \<Rightarrow> bool" where
  "is_extension_error (InvalidExtension _) = True"
| "is_extension_error (ExtensionMismatch _ _) = True"
| "is_extension_error _ = False"

text \<open>The verdict of the content and MIME checks alone (steps 1, 2 and the MIME half
  of step 4).\<close>

definition magic_and_mime_pass :: "buffer \<Rightarrow> string \<Rightarrow> string list \<Rightarrow> bool" where
  "magic_and_mime_pass buf mimeType allowedTypes =
    (8 \<le> length buf \<and>
     toLowerCase mimeType \<in> set (flatMapDefs mimeTypes allowedTypes) \<and>
     (case detectFileType buf of
        None \<Rightarrow> False
      | Some t \<Rightarrow> t \<in> set allowedTypes \<and>
          (case map_of FILE_TYPE_DEFINITIONS t of
             None \<Rightarrow> True
           | Some d \<Rightarrow> toLowerCase mimeType \<in> set (mimeTypes d))))"

section \<open>middleware/dosProtection.ts\<close>

record DosProtectionConfig =
  requestTimeoutMs :: nat
  maxConcurrentPerIp :: nat
  minUploadSpeed :: nat
  maxPdfPages :: nat
  maxBodySize :: nat

definition DEFAULT_DOS_CONFIG :: DosProtectionConfig where
  "DEFAULT_DOS_CONFIG =
    \<lparr>requestTimeoutMs = 60000, maxConcurrentPerIp = 5, minUploadSpeed = 1024,
     maxPdfPages = 100, maxBodySize = 15 * 1024 * 1024\<rparr>"

subsection \<open>The per-client counter of concurrent requests\<close>

text \<open>The module-level \<^verbatim>\<open>concurrentRequests: Map\<close> from client address to count; a missing key
  reads as \<^verbatim>\<open>get(ip) || 0\<close>.\<close>

type_synonym counters = "string \<rightharpoonup> nat"

definition getCount :: "counters \<Rightarrow> string \<Rightarrow> nat" where
  "getCount m ip = (case m ip of None \<Rightarrow> 0 | Some n \<Rightarrow> n)"

text \<open>The synchronous part of \<^verbatim>\<open>concurrentRequestLimiter\<close>: \<open>False\<close> is the 429
  response, \<open>True\<close> the admission (\<^verbatim>\<open>next()\<close>) with the incremented counter.\<close>

definition concurrentRequestLimiter :: "nat \<Rightarrow> string \<Rightarrow> counters \<Rightarrow> bool \<times> counters" where
  "concurrentRequestLimiter maxConcurrent clientIp m =
    (let currentCount = getCount m clientIp
     in if currentCount \<ge> maxConcurrent then (False, m)
        else (True, m(clientIp \<mapsto> currentCount + 1)))"

definition cleanup :: "string \<Rightarrow> counters \<Rightarrow> counters" where
  "cleanup clientIp m =
    (let count = getCount m clientIp
     in if count \<le> 1 then m(clientIp := None) else m(clientIp \<mapsto> count - 1))"

text \<open>
  An admitted request registers \<^verbatim>\<open>res.on('finish', cleanup)\<close> and
  \<^verbatim>\<open>res.on('close', cleanup)\<close>: either event of its response runs \<open>cleanup\<close>.
\<close>

datatype res_event = Finish | Close

definition limiter_listener :: "string \<Rightarrow> res_event \<Rightarrow> counters \<Rightarrow> counters" where
  "limiter_listener clientIp ev m =
    (case ev of Finish \<Rightarrow> cleanup clientIp m | Close \<Rightarrow> cleanup clientIp m)"

text \<open>
  The server as the limiter sees it. A request is named by a number; \<open>listeners\<close>
  holds the admitted requests with the client address their \<open>cleanup\<close> closure
  captured, \<open>active\<close> the admitted requests whose response has neither finished
  nor closed. The events a response emits are Node's: a response that is sent
  emits \<^verbatim>\<open>finish\<close> and then \<^verbatim>\<open>close\<close>; a connection that is torn down before
  the response is sent emits \<^verbatim>\<open>close\<close> alone.
\<close>

record server_state =
  concurrentRequests :: counters
  listeners :: "(nat \<times> string) list"
  active :: "nat list"

datatype server_event = Request nat string | Response nat res_event

definition init_state :: server_state where
  "init_state = \<lparr>concurrentRequests = Map.empty, listeners = [], active = []\<rparr>"

fun step :: "nat \<Rightarrow> server_state \<Rightarrow> server_event \<Rightarrow> server_state" where
  "step maxConcurrent s (Request rid clientIp) =
    (case concurrentRequestLimiter maxConcurrent clientIp (concurrentRequests s) of
       (False, m) \<Rightarrow> s
     | (True, m) \<Rightarrow>
         s\<lparr>concurrentRequests := m, listeners := listeners s @ [(rid, clientIp)],
           active := active s @ [rid]\<rparr>)"
| "step maxConcurrent s (Response rid ev) =
    (case map_of (listeners s) rid of
       None \<Rightarrow> s
     | Some clientIp \<Rightarrow>
         s\<lparr>concurrentRequests := limiter_listener clientIp ev (concurrentRequests s),
           active := removeAll rid (active s)\<rparr>)"

definition run :: "nat \<Rightarrow> server_event list \<Rightarrow> server_state" where
  "run maxConcurrent evs = foldl (step maxConcurrent) init_state evs"

definition completes :: "nat \<Rightarrow> server_event list" where
  "completes rid = [Response rid Finish, Response rid Close]"

definition aborts :: "nat \<Rightarrow> server_event list" where
  "aborts rid = [Response rid Close]"

definition active_requests_of :: "server_state \<Rightarrow> string \<Rightarrow> nat list" where
  "active_requests_of s clientIp =
    filter (\<lambda>rid. map_of (listeners s) rid = Some clientIp) (active s)"

subsection \<open>The page-count pre-scan\<close>

type_synonym code_unit = nat

definition lit :: "string \<Rightarrow> code_unit list" where
  "lit s = map of_char s"

text \<open>The classes \<^verbatim>\<open>\s\<close> and \<^verbatim>\<open>\d\<close> of a JavaScript regular expression.\<close>

definition js_space :: "code_unit \<Rightarrow> bool" where
  "js_space c \<longleftrightarrow>
     (9 \<le> c \<and> c \<le> 13) \<or> c = 32 \<or> c = 160 \<or> c = 5760 \<or> (8192 \<le> c \<and> c \<le> 8202) \<or>
     c = 8232 \<or> c = 8233 \<or> c = 8239 \<or> c = 8287 \<or> c = 12288 \<or> c = 65279"

definition js_digit :: "code_unit \<Rightarrow> bool" where
  "js_digit c \<longleftrightarrow> 48 \<le> c \<and> c \<le> 57"

text \<open>\<^verbatim>\<open>/\/Type\s*\/Page[^s]/\<close> anchored at the head of the string: the number of code
  units the match consumes.\<close>

definition match_page_marker :: "code_unit list \<Rightarrow> nat option" where
  "match_page_marker s =
    (if prefix (lit ''/Type'') s then
       (let r = dropWhile js_space (drop 5 s) in
        if prefix (lit ''/Page'') r then
          (case drop 5 r of
             [] \<Rightarrow> None
           | c # _ \<Rightarrow> if c \<noteq> 115 then Some (length s - length r + 6) else None)
        else None)
     else None)"

text \<open>\<^verbatim>\<open>content.match(/.../g)\<close>: the matches are found left to right and do not
  overlap; \<open>skip\<close> counts the code units still covered by the last match. The
  result is the number of matches (\<^verbatim>\<open>null\<close> is zero matches).\<close>

fun count_matches :: "nat \<Rightarrow> code_unit list \<Rightarrow> nat" where
  "count_matches skip [] = 0"
| "count_matches (Suc k) (c # cs) = count_matches k cs"
| "count_matches 0 (c # cs) =
    (case match_page_marker (c # cs) of
       Some n \<Rightarrow> 1 + count_matches (n - 1) cs
     | None \<Rightarrow> count_matches 0 cs)"

text \<open>\<^verbatim>\<open>parseInt(digits, 10)\<close> on a run of decimal digits (as an exact natural
  number: the source's double loses precision above \<open>2 ^ 53\<close>).\<close>

definition parseInt10 :: "code_unit list \<Rightarrow> nat" where
  "parseInt10 ds = foldl (\<lambda>acc d. 10 * acc + (d - 48)) 0 ds"

text \<open>\<^verbatim>\<open>/\/Count\s+(\d+)/\<close> anchored at the head: the value of the capture group.\<close>

definition match_count_field :: "code_unit list \<Rightarrow> nat option" where
  "match_count_field s =
    (if prefix (lit ''/Count'') s then
       (let r = drop 6 s; ds = takeWhile js_digit (dropWhile js_space r) in
        if takeWhile js_space r \<noteq> [] \<and> ds \<noteq> [] then Some (parseInt10 ds) else None)
     else None)"

text \<open>\<^verbatim>\<open>content.match(/\/Count\s+(\d+)/)\<close>: the leftmost match.\<close>

fun search_count_field :: "code_unit list \<Rightarrow> nat option" where
  "search_count_field [] = None"
| "search_count_field (c # cs) =
    (case match_count_field (c # cs) of
       Some v \<Rightarrow> Some v
     | None \<Rightarrow> search_count_field cs)"

datatype complexity_error =
    TooSmallForPdf
  | TooManyPages nat nat

record complexity_result =
  valid :: bool
  pageCount :: "nat option"
  error :: "complexity_error option"

text \<open>
  \<^verbatim>\<open>validatePdfComplexity(pdfBuffer, maxPages)\<close>. \<open>toStringUtf8\<close> is Node's
  \<^verbatim>\<open>Buffer.prototype.toString('utf8', ...)\<close>, applied to the leading bytes.
\<close>

definition validatePdfComplexity ::
    "(buffer \<Rightarrow> code_unit list) \<Rightarrow> buffer \<Rightarrow> nat \<Rightarrow> complexity_result" where
  "validatePdfComplexity toStringUtf8 pdfBuffer maxPages =
    (if length pdfBuffer < 5
     then \<lparr>valid = False, pageCount = None, error = Some TooSmallForPdf\<rparr>
     else
       let content = toStringUtf8 (take (min (length pdfBuffer) (1024 * 1024)) pdfBuffer);
           pageMatches = count_matches 0 content;
           estimatedPages = (if pageMatches = 0 then 1 else pageMatches);
           metadataPageCount = (case search_count_field content of None \<Rightarrow> 0 | Some v \<Rightarrow> v);
           pages = max estimatedPages metadataPageCount
       in if pages > maxPages
          then \<lparr>valid = False, pageCount = Some pages,
                error = Some (TooManyPages pages maxPages)\<rparr>
          else \<lparr>valid = True, pageCount = Some pages, error = None\<rparr>)"

section \<open>services/imageToPdf.service.ts\<close>

text \<open>The three fields of an uploaded file (\<^verbatim>\<open>Express.Multer.File\<close>) that the
  code reads; \<^verbatim>\<open>ImageData\<close> has the same three.\<close>

record ImageData =
  buffer :: buffer
  mimetype :: string
  originalname :: string

text \<open>
  The document under construction is the list of its pages; a page has its size
  and what was drawn on it. The library \<^verbatim>\<open>pdf-lib\<close> is a parameter: its
  decoders return the intrinsic pixel size of the image (\<^verbatim>\<open>scale(1)\<close>) or throw
  (\<open>Inl\<close> with the message), and \<^verbatim>\<open>save\<close> serialises the pages or throws.
  Creating the document, adding a page and drawing on it do not throw.
\<close>

record drawing =
  drawnImage :: buffer
  drawX :: nat
  drawY :: nat
  drawWidth :: nat
  drawHeight :: nat

record pdf_page =
  pageWidth :: nat
  pageHeight :: nat
  drawn :: "drawing list"

record pdf_lib =
  embedPng :: "buffer \<Rightarrow> string + (nat \<times> nat)"
  embedJpg :: "buffer \<Rightarrow> string + (nat \<times> nat)"
  save :: "pdf_page list \<Rightarrow> string + buffer"

definition embedByFormat :: "pdf_lib \<Rightarrow> ImageData \<Rightarrow> string + (nat \<times> nat)" where
  "embedByFormat lib imageData =
    (if mimetype imageData = ''image/png'' then embedPng lib (buffer imageData)
     else if mimetype imageData = ''image/jpeg'' then embedJpg lib (buffer imageData)
     else Inl (''Unsupported image format: '' @ mimetype imageData @
               ''. Only PNG and JPEG are supported.''))"

definition addImageToPdf :: "pdf_lib \<Rightarrow> pdf_page list \<Rightarrow> ImageData \<Rightarrow> string + pdf_page list" where
  "addImageToPdf lib pdfDoc imageData =
    (case embedByFormat lib imageData of
       Inl msg \<Rightarrow> Inl (''Failed to embed image: '' @ msg)
     | Inr (w, h) \<Rightarrow>
         Inr (pdfDoc @
           [\<lparr>pageWidth = w, pageHeight = h,
             drawn = [\<lparr>drawnImage = buffer imageData, drawX = 0, drawY = 0,
                       drawWidth = w, drawHeight = h\<rparr>]\<rparr>]))"

text \<open>The loop of \<^verbatim>\<open>convertImagesToPdf\<close> from index \<open>i\<close> on.\<close>

fun addImages :: "pdf_lib \<Rightarrow> nat \<Rightarrow> pdf_page list \<Rightarrow> ImageData list \<Rightarrow> string + pdf_page list" where
  "addImages lib i pdfDoc [] = Inr pdfDoc"
| "addImages lib i pdfDoc (img # rest) =
    (case addImageToPdf lib pdfDoc img of
       Inl msg \<Rightarrow>
         Inl (''Failed to process image '' @ show_nat (i + 1) @ '' ('' @ originalname img @
              ''): '' @ msg)
     | Inr pdfDoc' \<Rightarrow> addImages lib (i + 1) pdfDoc' rest)"

text \<open>The outer \<^verbatim>\<open>catch\<close> of \<^verbatim>\<open>convertImagesToPdf\<close>.\<close>

definition creationCatch :: "string \<Rightarrow> string" where
  "creationCatch msg =
    (if sublist ''Failed to process image'' msg then msg
     else ''PDF creation failed: '' @ msg)"

definition convertImagesToPdf :: "pdf_lib \<Rightarrow> ImageData list \<Rightarrow> string + buffer" where
  "convertImagesToPdf lib images =
    (if length images = 0 then Inl ''At least one image is required''
     else
       (case addImages lib 0 [] images of
          Inl msg \<Rightarrow> Inl (creationCatch msg)
        | Inr pdfDoc \<Rightarrow>
            (case save lib pdfDoc of
               Inl msg \<Rightarrow> Inl (creationCatch msg)
             | Inr pdfBytes \<Rightarrow> Inr pdfBytes)))"

definition isValidImageFormat :: "string \<Rightarrow> bool" where
  "isValidImageFormat mt \<longleftrightarrow> mt = ''image/png'' \<or> mt = ''image/jpeg''"

text \<open>\<^verbatim>\<open>validateImages\<close>: \<open>None\<close> when nothing is thrown, else the message.\<close>

fun validateEach :: "nat \<Rightarrow> ImageData list \<Rightarrow> string option" where
  "validateEach i [] = None"
| "validateEach i (img # rest) =
    (if length (buffer img) = 0
     then Some (''Image '' @ show_nat (i + 1) @ '' has no data'')
     else if \<not> isValidImageFormat (mimetype img)
     then Some (''Image '' @ show_nat (i + 1) @ '' ('' @ originalname img @
                '') has unsupported format: '' @ mimetype img)
     else validateEach (i + 1) rest)"

definition validateImages :: "ImageData list \<Rightarrow> string option" where
  "validateImages images =
    (if length images = 0 then Some ''At least one image is required''
     else validateEach 0 images)"

text \<open>The page that \<^verbatim>\<open>addImageToPdf\<close> adds for an image of the given pixel size.\<close>

definition image_page :: "ImageData \<Rightarrow> nat \<times> nat \<Rightarrow> pdf_page" where
  "image_page imageData dims =
    \<lparr>pageWidth = fst dims, pageHeight = snd dims,
     drawn = [\<lparr>drawnImage = buffer imageData, drawX = 0, drawY = 0,
               drawWidth = fst dims, drawHeight = snd dims\<rparr>]\<rparr>"

section \<open>services/pdfConverter.service.ts\<close>

text \<open>
  The libraries are parameters. Of \<^verbatim>\<open>pdfjs-dist\<close>: a page proxy gives its text
  items (the string and \<^verbatim>\<open>transform[5]\<close> of an item that has \<^verbatim>\<open>str\<close>; other
  items are marked content), its operator list (\<^verbatim>\<open>fnArray\<close> zipped with
  \<^verbatim>\<open>argsArray\<close>, an entry of which may be \<^verbatim>\<open>null\<close>) and the lookup
  \<^verbatim>\<open>page.objs.get(name, callback)\<close>; a document proxy gives its page count and
  its pages. Of the canvas library: \<^verbatim>\<open>createCanvas\<close> may throw, and \<open>encodePng\<close>
  stands for \<^verbatim>\<open>createImageData\<close>, \<^verbatim>\<open>putImageData\<close> and \<^verbatim>\<open>canvas.encode('png')\<close>
  on the pixel array the code has filled.

  The lookup with a callback never throws. It calls back once the object is
  resolved, with the object's data: an image object, or a falsy value (\<open>None\<close>;
  \<^verbatim>\<open>pdfjs-dist\<close> resolves an image that it could not decode with \<^verbatim>\<open>null\<close>). For
  an object that is never resolved it never calls back, and the promise that
  the code awaits stays pending.

  A baseline coordinate \<^verbatim>\<open>transform[5]\<close> is a finite double, read as the real
  number it denotes.
\<close>

datatype text_item = TextItem string real | MarkedContent

datatype ops = PaintImageXObject | PaintXObject | PaintImageMaskXObject | OtherOp nat

record imageObj =
  width :: nat
  height :: nat
  data :: "buffer option"
  kind :: nat

datatype lookup = NoCallback | Callback "imageObj option"

record PDFPageProxy =
  getTextContent :: "string + text_item list"
  getOperatorList :: "string + (ops \<times> string list option) list"
  objs_get :: "string option \<Rightarrow> lookup"

record PDFDocumentProxy =
  numPages :: nat
  getPage :: "nat \<Rightarrow> string + PDFPageProxy"

record canvas_lib =
  createCanvas :: "nat \<Rightarrow> nat \<Rightarrow> string option"
  encodePng :: "nat \<Rightarrow> nat \<Rightarrow> buffer \<Rightarrow> string + buffer"

datatype encoding = EncodeJpeg real | EncodePng

text \<open>The fields of \<^verbatim>\<open>ConvertedPage\<close> and \<^verbatim>\<open>ExtractedImage\<close> carry a prefix: a
  record field is a constant of the theory, and \<^verbatim>\<open>buffer\<close>, \<^verbatim>\<open>filename\<close> and
  \<^verbatim>\<open>pageNumber\<close> occur in more than one interface.\<close>

record ConvertedPage =
  cp_pageNumber :: nat
  cp_buffer :: buffer
  cp_filename :: string

record ExtractedImage =
  ei_buffer :: buffer
  ei_filename :: string
  ei_format :: string

record ExtractedPageContent =
  pageNumber :: nat
  textContent :: string
  images :: "ExtractedImage list"

definition defaultScale :: real where "defaultScale = 2.0"
definition defaultQuality :: real where "defaultQuality = 0.95"

definition loadPdfDocument ::
    "(buffer \<Rightarrow> string + PDFDocumentProxy) \<Rightarrow> buffer \<Rightarrow> string + PDFDocumentProxy" where
  "loadPdfDocument getDocument pdfBuffer =
    (case getDocument pdfBuffer of
       Inl msg \<Rightarrow> Inl (''Failed to load PDF: '' @ msg)
     | Inr pdfDoc \<Rightarrow> Inr pdfDoc)"

text \<open>\<open>rasterize\<close> is the viewport, the canvas and \<^verbatim>\<open>page.render\<close> followed by
  \<^verbatim>\<open>canvas.encode\<close>.\<close>

definition convertPageToImage ::
    "(PDFPageProxy \<Rightarrow> real \<Rightarrow> encoding \<Rightarrow> string + buffer) \<Rightarrow>
     PDFPageProxy \<Rightarrow> string \<Rightarrow> real \<Rightarrow> real \<Rightarrow> string + buffer" where
  "convertPageToImage rasterize page fmt scl qual =
    (if fmt = ''jpeg'' then rasterize page scl (EncodeJpeg (qual * 100))
     else rasterize page scl EncodePng)"

definition convertOnePage ::
    "(PDFPageProxy \<Rightarrow> real \<Rightarrow> encoding \<Rightarrow> string + buffer) \<Rightarrow>
     PDFDocumentProxy \<Rightarrow> string \<Rightarrow> real \<Rightarrow> real \<Rightarrow> nat \<Rightarrow> string + ConvertedPage" where
  "convertOnePage rasterize pdfDoc fmt scl qual pageNum =
    (case getPage pdfDoc pageNum of
       Inl msg \<Rightarrow> Inl msg
     | Inr page \<Rightarrow>
         (case convertPageToImage rasterize page fmt scl qual of
            Inl msg \<Rightarrow> Inl msg
          | Inr imageBuffer \<Rightarrow>
              Inr \<lparr>cp_pageNumber = pageNum, cp_buffer = imageBuffer,
                   cp_filename = ''page-'' @ show_nat pageNum @ ''.'' @ fmt\<rparr>))"

text \<open>\<^verbatim>\<open>convertPdfToImages(pdfBuffer, {format})\<close>: the loop runs \<open>pageNum\<close> from 1
  to \<open>numPages\<close>; scale and quality are the defaults, as every caller leaves
  them out.\<close>

definition convertPdfToImages ::
    "(buffer \<Rightarrow> string + PDFDocumentProxy) \<Rightarrow>
     (PDFPageProxy \<Rightarrow> real \<Rightarrow> encoding \<Rightarrow> string + buffer) \<Rightarrow>
     buffer \<Rightarrow> string \<Rightarrow> string + ConvertedPage list" where
  "convertPdfToImages getDocument rasterize pdfBuffer fmt =
    (case loadPdfDocument getDocument pdfBuffer of
       Inl msg \<Rightarrow> Inl (''PDF conversion failed: '' @ msg)
     | Inr pdfDoc \<Rightarrow>
         (case mapE (convertOnePage rasterize pdfDoc fmt defaultScale defaultQuality)
                 [1..<Suc (numPages pdfDoc)] of
            Inl msg \<Rightarrow> Inl (''PDF conversion failed: '' @ msg)
          | Inr convertedPages \<Rightarrow> Inr convertedPages))"

definition isValidFormat :: "string \<Rightarrow> bool" where
  "isValidFormat fmt \<longleftrightarrow> fmt = ''png'' \<or> fmt = ''jpeg''"

subsection \<open>Text of a page\<close>

text \<open>
  The loop of \<^verbatim>\<open>extractTextFromPage\<close> with its two variables \<open>text\<close> and
  \<open>lastY\<close>. The difference \<^verbatim>\<open>lastY - item.transform[5]\<close> is computed in
  double-precision arithmetic, which rounds: \<open>fsub\<close> is that subtraction of
  two doubles, a parameter; its result is read as the real number it denotes,
  and a difference that overflows as any real of its sign beyond 5.
  \<^verbatim>\<open>Math.abs\<close>, the comparison with 5 and the comparison \<^verbatim>\<open>lastY !== -1\<close> are
  exact on doubles.
\<close>

fun textLoop :: "(real \<Rightarrow> real \<Rightarrow> real) \<Rightarrow> string \<Rightarrow> real \<Rightarrow> text_item list \<Rightarrow> string" where
  "textLoop fsub text lastY [] = text"
| "textLoop fsub text lastY (MarkedContent # items) = textLoop fsub text lastY items"
| "textLoop fsub text lastY (TextItem str ty # items) =
    textLoop fsub
      ((if lastY \<noteq> - 1 \<and> \<bar>fsub lastY ty\<bar> > 5 then text @ [CHR 0x0A] else text) @ str)
      ty items"

definition extractTextFromPage ::
    "(real \<Rightarrow> real \<Rightarrow> real) \<Rightarrow> PDFPageProxy \<Rightarrow> string + string" where
  "extractTextFromPage fsub page =
    (case getTextContent page of
       Inl msg \<Rightarrow> Inl (''Failed to extract text: '' @ msg)
     | Inr items \<Rightarrow> Inr (textLoop fsub [] (- 1) items))"

subsection \<open>Embedded images\<close>

text \<open>Reads and writes of typed arrays: a read past the end is \<^verbatim>\<open>undefined\<close>, a
  write past the end is dropped, and \<^verbatim>\<open>undefined\<close> is stored as 0.\<close>

definition getByte :: "buffer \<Rightarrow> nat \<Rightarrow> byte option" where
  "getByte b i = (if i < length b then Some (b ! i) else None)"

definition storeByte :: "buffer \<Rightarrow> nat \<Rightarrow> byte option \<Rightarrow> buffer" where
  "storeByte d i v =
    (if i < length d then d[i := (case v of None \<Rightarrow> 0 | Some b \<Rightarrow> b)] else d)"

text \<open>One turn of the pixel loop at index \<open>i\<close>, and the whole loop
  (\<open>i = 0, 4, 8, ...\<close> below the length of the source).\<close>

definition copyPixel :: "buffer \<Rightarrow> buffer \<Rightarrow> nat \<Rightarrow> buffer" where
  "copyPixel srcData d i =
    (let d1 = storeByte d i (getByte srcData i);
         d2 = storeByte d1 (i + 1) (getByte srcData (i + 1));
         d3 = storeByte d2 (i + 2) (getByte srcData (i + 2))
     in storeByte d3 (i + 3)
          (Some (case getByte srcData (i + 3) of None \<Rightarrow> 255 | Some a \<Rightarrow> a)))"

definition copyPixels :: "buffer \<Rightarrow> buffer \<Rightarrow> buffer" where
  "copyPixels srcData d =
    foldl (copyPixel srcData) d (map (\<lambda>k. 4 * k) [0..<(length srcData + 3) div 4])"

text \<open>\<^verbatim>\<open>data[0] === 0xff && data[1] === 0xd8\<close>\<close>

fun startsWithSOI :: "buffer \<Rightarrow> bool" where
  "startsWithSOI (a # b # rest) = (a = 0xFF \<and> b = 0xD8)"
| "startsWithSOI _ = False"

definition convertImageObjToBuffer :: "canvas_lib \<Rightarrow> imageObj \<Rightarrow> string + (buffer \<times> string)" where
  "convertImageObjToBuffer lib obj =
    (case createCanvas lib (width obj) (height obj) of
       Some msg \<Rightarrow> Inl (''Failed to convert image object: '' @ msg)
     | None \<Rightarrow>
         (case data obj of
            None \<Rightarrow>
              (case encodePng lib (width obj) (height obj)
                      (replicate (4 * width obj * height obj) 0) of
                 Inl msg \<Rightarrow> Inl (''Failed to convert image object: '' @ msg)
               | Inr png \<Rightarrow> Inr (png, ''png''))
          | Some d \<Rightarrow>
              if kind obj = 1 \<and> startsWithSOI d then Inr (d, ''jpg'')
              else
                (case encodePng lib (width obj) (height obj)
                        (copyPixels d (replicate (4 * width obj * height obj) 0)) of
                   Inl msg \<Rightarrow> Inl (''Failed to convert image object: '' @ msg)
                 | Inr png \<Rightarrow> Inr (png, ''png''))))"

text \<open>What one instruction of the operator list does in the walk of
  \<^verbatim>\<open>extractImagesFromPage\<close>: nothing (not an image operator), a silent skip
  (the looked-up object is falsy), a caught throw, an image, or nothing ever
  (the lookup never calls back, so the \<^verbatim>\<open>await\<close> never returns). Reading
  \<^verbatim>\<open>argsArray[i][0]\<close> of an entry that is \<^verbatim>\<open>null\<close> throws a \<^verbatim>\<open>TypeError\<close>; of an
  empty entry it is \<^verbatim>\<open>undefined\<close> (\<open>None\<close>).\<close>

datatype paint_outcome =
    NotImage
  | Falsy
  | Thrown string
  | Extracted buffer string
  | Pending

definition isImageOp :: "ops \<Rightarrow> bool" where
  "isImageOp op \<longleftrightarrow> op = PaintImageXObject \<or> op = PaintXObject \<or> op = PaintImageMaskXObject"

definition paintOutcome ::
    "canvas_lib \<Rightarrow> PDFPageProxy \<Rightarrow> ops \<times> string list option \<Rightarrow> paint_outcome" where
  "paintOutcome lib page ins =
    (if isImageOp (fst ins) then
       (case snd ins of
          None \<Rightarrow> Thrown ''Cannot read properties of null (reading '0')''
        | Some args \<Rightarrow>
            (case objs_get page (case args of [] \<Rightarrow> None | a # _ \<Rightarrow> Some a) of
               NoCallback \<Rightarrow> Pending
             | Callback None \<Rightarrow> Falsy
             | Callback (Some obj) \<Rightarrow>
                 (case convertImageObjToBuffer lib obj of
                    Inl msg \<Rightarrow> Thrown msg
                  | Inr (buf, fmt) \<Rightarrow> Extracted buf fmt)))
     else NotImage)"

definition imageFilename :: "nat \<Rightarrow> nat \<Rightarrow> string \<Rightarrow> string" where
  "imageFilename pageNum imageIndex fmt =
    ''page-'' @ show_nat pageNum @ ''-image-'' @ show_nat imageIndex @ ''.'' @ fmt"

text \<open>The walk, with its variables \<open>images\<close> and \<open>imageIndex\<close> and the lines
  written by \<^verbatim>\<open>console.error\<close> (the message and the error). It returns its
  images and the lines written (\<open>Some\<close>), or never returns (\<open>None\<close>).\<close>

fun walk ::
    "canvas_lib \<Rightarrow> PDFPageProxy \<Rightarrow> nat \<Rightarrow> (ops \<times> string list option) list \<Rightarrow>
     ExtractedImage list \<Rightarrow> nat \<Rightarrow> (string \<times> string) list \<Rightarrow>
     (ExtractedImage list \<times> (string \<times> string) list) option" where
  "walk lib page pageNum [] imgs imageIndex logged = Some (imgs, logged)"
| "walk lib page pageNum (ins # rest) imgs imageIndex logged =
    (case paintOutcome lib page ins of
       NotImage \<Rightarrow> walk lib page pageNum rest imgs imageIndex logged
     | Falsy \<Rightarrow> walk lib page pageNum rest imgs imageIndex logged
     | Thrown msg \<Rightarrow>
         walk lib page pageNum rest imgs imageIndex
           (logged @ [(''Failed to extract image '' @ show_nat imageIndex @ '' from page '' @
                       show_nat pageNum @ '':'', msg)])
     | Extracted buf fmt \<Rightarrow>
         walk lib page pageNum rest
           (imgs @ [\<lparr>ei_buffer = buf, ei_filename = imageFilename pageNum imageIndex fmt,
                     ei_format = fmt\<rparr>])
           (imageIndex + 1) logged
     | Pending \<Rightarrow> None)"

definition extractImagesFromPage ::
    "canvas_lib \<Rightarrow> PDFPageProxy \<Rightarrow> nat \<Rightarrow>
     (string + (ExtractedImage list \<times> (string \<times> string) list)) option" where
  "extractImagesFromPage lib page pageNum =
    (case getOperatorList page of
       Inl msg \<Rightarrow> Some (Inl (''Failed to extract images: '' @ msg))
     | Inr operatorList \<Rightarrow>
         (case walk lib page pageNum operatorList [] 1 [] of
            None \<Rightarrow> None
          | Some found \<Rightarrow> Some (Inr found)))"

text \<open>One turn of the loop of \<^verbatim>\<open>extractPdfContent\<close>. \<^verbatim>\<open>Promise.all\<close> rejects as
  soon as one half rejects, also while the other is pending; when both halves
  reject, the text's rejection is taken. It is pending while the text is
  extracted and the images are pending.\<close>

definition extractOnePage ::
    "(real \<Rightarrow> real \<Rightarrow> real) \<Rightarrow> canvas_lib \<Rightarrow> PDFDocumentProxy \<Rightarrow> nat \<Rightarrow>
     (string + ExtractedPageContent) option" where
  "extractOnePage fsub lib pdfDoc pageNum =
    (case getPage pdfDoc pageNum of
       Inl msg \<Rightarrow> Some (Inl msg)
     | Inr page \<Rightarrow>
         (case extractTextFromPage fsub page of
            Inl msg \<Rightarrow> Some (Inl msg)
          | Inr tx \<Rightarrow>
              (case extractImagesFromPage lib page pageNum of
                 None \<Rightarrow> None
               | Some (Inl msg) \<Rightarrow> Some (Inl msg)
               | Some (Inr found) \<Rightarrow>
                   Some (Inr \<lparr>pageNumber = pageNum, textContent = tx, images = fst found\<rparr>))))"

definition extractPdfContent ::
    "(real \<Rightarrow> real \<Rightarrow> real) \<Rightarrow> (buffer \<Rightarrow> string + PDFDocumentProxy) \<Rightarrow> canvas_lib \<Rightarrow> buffer \<Rightarrow>
     (string + ExtractedPageContent list) option" where
  "extractPdfContent fsub getDocument lib pdfBuffer =
    (case loadPdfDocument getDocument pdfBuffer of
       Inl msg \<Rightarrow> Some (Inl (''PDF content extraction failed: '' @ msg))
     | Inr pdfDoc \<Rightarrow>
         (case mapEO (extractOnePage fsub lib pdfDoc) [1..<Suc (numPages pdfDoc)] of
            None \<Rightarrow> None
          | Some (Inl msg) \<Rightarrow> Some (Inl (''PDF content extraction failed: '' @ msg))
          | Some (Inr extractedContent) \<Rightarrow> Some (Inr extractedContent)))"

section \<open>services/pdfToDocx.service.ts\<close>

text \<open>The paragraphs that \<^verbatim>\<open>buildDocxContent\<close> pushes: the page label, a line of
  text, the spacing paragraph of a blank line, an image (with the detected type;
  its box is always 600 by 400) and the page break.\<close>

datatype docx_paragraph =
    PageLabel nat
  | TextParagraph string
  | SpacingParagraph
  | ImageParagraph buffer string
  | PageBreakParagraph

definition convertTextToParagraphs :: "string \<Rightarrow> docx_paragraph list" where
  "convertTextToParagraphs txt =
    map (\<lambda>line. let trimmedLine = trim line
                in if length trimmedLine = 0 then SpacingParagraph
                   else TextParagraph trimmedLine)
      (splitOn (CHR 0x0A) txt)"

definition detectImageType :: "buffer \<Rightarrow> string" where
  "detectImageType b =
    (if getByte b 0 = Some 0x89 \<and> getByte b 1 = Some 0x50 \<and> getByte b 2 = Some 0x4E \<and>
        getByte b 3 = Some 0x47 then ''png''
     else if getByte b 0 = Some 0xFF \<and> getByte b 1 = Some 0xD8 then ''jpg''
     else ''png'')"

text \<open>\<open>imageRun\<close> is the constructor of the \<^verbatim>\<open>docx\<close> library, which may throw
  (\<open>Some\<close> with the message).\<close>

definition createImageParagraph ::
    "(buffer \<Rightarrow> string \<Rightarrow> string option) \<Rightarrow> buffer \<Rightarrow> string + docx_paragraph" where
  "createImageParagraph imageRun imageBuffer =
    (let imageType = detectImageType imageBuffer
     in case imageRun imageBuffer imageType of
          Some msg \<Rightarrow> Inl msg
        | None \<Rightarrow> Inr (ImageParagraph imageBuffer imageType))"

text \<open>The inner loop over the images of a page: a throw is logged and the loop
  goes on.\<close>

fun imageParagraphs ::
    "(buffer \<Rightarrow> string \<Rightarrow> string option) \<Rightarrow> ExtractedImage list \<Rightarrow> docx_paragraph list" where
  "imageParagraphs imageRun [] = []"
| "imageParagraphs imageRun (img # rest) =
    (case createImageParagraph imageRun (ei_buffer img) of
       Inl msg \<Rightarrow> imageParagraphs imageRun rest
     | Inr par \<Rightarrow> par # imageParagraphs imageRun rest)"

text \<open>What one turn of the loop of \<^verbatim>\<open>buildDocxContent\<close> pushes before the page
  break: the label, the text and the images. \<open>n\<close> is
  \<^verbatim>\<open>extractedContent.length\<close>.\<close>

definition pageParagraphs ::
    "(buffer \<Rightarrow> string \<Rightarrow> string option) \<Rightarrow> nat \<Rightarrow> bool \<Rightarrow> ExtractedPageContent \<Rightarrow>
     docx_paragraph list" where
  "pageParagraphs imageRun n includeImages page =
    (if n > 1 then [PageLabel (pageNumber page)] else []) @
    (if length (trim (textContent page)) > 0 then convertTextToParagraphs (textContent page)
     else []) @
    (if includeImages \<and> length (images page) > 0 then imageParagraphs imageRun (images page)
     else [])"

text \<open>The loop from index \<open>i\<close> on; the page break is pushed when
  \<^verbatim>\<open>preservePageBreaks && i < extractedContent.length - 1\<close>.\<close>

fun buildFrom ::
    "(buffer \<Rightarrow> string \<Rightarrow> string option) \<Rightarrow> nat \<Rightarrow> bool \<Rightarrow> bool \<Rightarrow> nat \<Rightarrow>
     ExtractedPageContent list \<Rightarrow> docx_paragraph list" where
  "buildFrom imageRun n includeImages preservePageBreaks i [] = []"
| "buildFrom imageRun n includeImages preservePageBreaks i (page # rest) =
    pageParagraphs imageRun n includeImages page @
    (if preservePageBreaks \<and> int i < int n - 1 then [PageBreakParagraph] else []) @
    buildFrom imageRun n includeImages preservePageBreaks (i + 1) rest"

definition buildDocxContent ::
    "(buffer \<Rightarrow> string \<Rightarrow> string option) \<Rightarrow> ExtractedPageContent list \<Rightarrow> bool \<Rightarrow> bool \<Rightarrow>
     docx_paragraph list" where
  "buildDocxContent imageRun extractedContent includeImages preservePageBreaks =
    buildFrom imageRun (length extractedContent) includeImages preservePageBreaks 0
      extractedContent"

definition pageBreaks :: "docx_paragraph list \<Rightarrow> nat" where
  "pageBreaks ps = length (filter (\<lambda>par. par = PageBreakParagraph) ps)"

section \<open>config/upload.ts, middleware/fileValidation.ts and routes/pdf.routes.ts\<close>

text \<open>
  A request as the middleware reads it: the client address that \<^verbatim>\<open>getClientIp\<close>
  finds, the parsed \<^verbatim>\<open>content-length\<close> header, the part of the multipart body
  named \<^verbatim>\<open>pdf\<close>, and the \<^verbatim>\<open>format\<close> query parameter. A response is a JSON error
  with its status, the archive piped to the client (its entries in the order
  they were appended), an error handed to \<^verbatim>\<open>next\<close>, or none: the handler awaits
  a promise that stays pending and never answers. A middleware answers
  (\<open>Some\<close>) or calls \<^verbatim>\<open>next()\<close> (\<open>None\<close>), and may change the counters.
\<close>

record request =
  clientIp :: string
  contentLength :: nat
  pdfPart :: "ImageData option"
  formatQuery :: "string option"

datatype entry_data = TextData string | BinaryData buffer

datatype response =
    JsonError nat string
  | ZipArchive "(string \<times> entry_data) list"
  | NextError string
  | NoResponse

type_synonym middleware = "request \<Rightarrow> counters \<Rightarrow> response option \<times> counters"

definition payloadSizeLimiter :: "nat \<Rightarrow> middleware" where
  "payloadSizeLimiter maxSize req m =
    (if contentLength req > maxSize
     then (Some (JsonError 413 (''Request payload too large. Maximum size is '' @
             show_nat ((maxSize + 524288) div 1048576) @ ''MB.'')), m)
     else (None, m))"

definition concurrentRequestLimiterMw :: "nat \<Rightarrow> middleware" where
  "concurrentRequestLimiterMw maxConcurrent req m =
    (case concurrentRequestLimiter maxConcurrent (clientIp req) m of
       (False, m') \<Rightarrow>
         (Some (JsonError 429
            ''Too many concurrent requests. Please wait for current operations to complete.''),
          m')
     | (True, m') \<Rightarrow> (None, m'))"

text \<open>\<^verbatim>\<open>requestTimeout\<close> arms a timer and calls \<^verbatim>\<open>next()\<close>; what the timer does
  when it fires later (it answers with status 503 a request whose headers are
  not sent by then) is a matter of real time and is left out.\<close>

definition requestTimeout :: "nat \<Rightarrow> middleware" where
  "requestTimeout timeoutMs req m = (None, m)"

definition complexityMessage :: "complexity_error \<Rightarrow> string" where
  "complexityMessage e =
    (case e of
       TooSmallForPdf \<Rightarrow> ''File too small to be a valid PDF''
     | TooManyPages n maxPages \<Rightarrow>
         ''PDF has too many pages ('' @ show_nat n @ ''). Maximum allowed is '' @
         show_nat maxPages @ '' pages.'')"

definition pdfComplexityMiddleware :: "(buffer \<Rightarrow> code_unit list) \<Rightarrow> nat \<Rightarrow> middleware" where
  "pdfComplexityMiddleware toStringUtf8 maxPages req m =
    (case pdfPart req of
       None \<Rightarrow> (None, m)
     | Some f \<Rightarrow>
         (let result = validatePdfComplexity toStringUtf8 (buffer f) maxPages
          in if \<not> valid result
             then (Some (JsonError 400
                     (case error result of
                        None \<Rightarrow> ''PDF validation failed''
                      | Some e \<Rightarrow> complexityMessage e)), m)
             else (None, m)))"

text \<open>\<^verbatim>\<open>dosProtection(config)\<close>: the list of middleware it returns.\<close>

definition dosProtection :: "DosProtectionConfig \<Rightarrow> middleware list" where
  "dosProtection finalConfig =
    [payloadSizeLimiter (maxBodySize finalConfig),
     concurrentRequestLimiterMw (maxConcurrentPerIp finalConfig),
     requestTimeout (requestTimeoutMs finalConfig)]"

text \<open>\<^verbatim>\<open>upload.single('pdf')\<close> with \<^verbatim>\<open>pdfFileFilter\<close> and the size limit; its errors
  are answered by the router's error handler with status 400. It leaves the
  accepted part in \<^verbatim>\<open>req.file\<close>.\<close>

definition MAX_FILE_SIZE :: nat where
  "MAX_FILE_SIZE = 10 * 1024 * 1024"

definition uploadSingle :: middleware where
  "uploadSingle req m =
    (case pdfPart req of
       None \<Rightarrow> (None, m)
     | Some f \<Rightarrow>
         if mimetype f \<noteq> ''application/pdf''
         then (Some (JsonError 400 ''Only PDF files are allowed''), m)
         else if length (buffer f) > MAX_FILE_SIZE
         then (Some (JsonError 400 ''File size exceeds the maximum limit of 10MB''), m)
         else (None, m))"

definition validatePdfUpload :: middleware where
  "validatePdfUpload req m =
    (case pdfPart req of
       None \<Rightarrow> (None, m)
     | Some f \<Rightarrow>
         if \<not> isValid (validatePdf (buffer f) (originalname f) (mimetype f))
         then (Some (JsonError 400 ''Invalid PDF file''), m)
         else (None, m))"

definition noFileMessage :: string where
  "noFileMessage = ''No PDF file uploaded. Please provide a PDF file in the \"pdf\" field.''"

text \<open>\<^verbatim>\<open>(req.query.format as string)?.toLowerCase() || 'png'\<close>\<close>

definition formatParam :: "request \<Rightarrow> string" where
  "formatParam req =
    (let lowered = (case formatQuery req of None \<Rightarrow> [] | Some q \<Rightarrow> toLowerCase q)
     in if lowered = [] then ''png'' else lowered)"

text \<open>The handler of \<^verbatim>\<open>POST /convert\<close>.\<close>

definition convertHandler ::
    "(buffer \<Rightarrow> string + PDFDocumentProxy) \<Rightarrow>
     (PDFPageProxy \<Rightarrow> real \<Rightarrow> encoding \<Rightarrow> string + buffer) \<Rightarrow> request \<Rightarrow> response" where
  "convertHandler getDocument rasterize req =
    (case pdfPart req of
       None \<Rightarrow> JsonError 400 noFileMessage
     | Some f \<Rightarrow>
         if \<not> isValidFormat (formatParam req)
         then JsonError 400 ''Invalid format. Supported formats: png, jpeg''
         else
           (case convertPdfToImages getDocument rasterize (buffer f) (formatParam req) of
              Inl msg \<Rightarrow> NextError msg
            | Inr convertedPages \<Rightarrow>
                ZipArchive
                  (map (\<lambda>page. (cp_filename page, BinaryData (cp_buffer page)))
                     convertedPages)))"

text \<open>The entries that the handler of \<^verbatim>\<open>POST /extract\<close> appends for one page, and
  the handler.\<close>

definition pageEntries :: "ExtractedPageContent \<Rightarrow> (string \<times> entry_data) list" where
  "pageEntries page =
    (''page-'' @ show_nat (pageNumber page) @ ''.txt'', TextData (textContent page)) #
    map (\<lambda>img. (''page-'' @ show_nat (pageNumber page) @ ''-images/'' @ ei_filename img,
                 BinaryData (ei_buffer img)))
      (images page)"

definition extractHandler ::
    "(real \<Rightarrow> real \<Rightarrow> real) \<Rightarrow> (buffer \<Rightarrow> string + PDFDocumentProxy) \<Rightarrow> canvas_lib \<Rightarrow>
     request \<Rightarrow> response" where
  "extractHandler fsub getDocument lib req =
    (case pdfPart req of
       None \<Rightarrow> JsonError 400 noFileMessage
     | Some f \<Rightarrow>
         (case extractPdfContent fsub getDocument lib (buffer f) of
            None \<Rightarrow> NoResponse
          | Some (Inl msg) \<Rightarrow> NextError msg
          | Some (Inr extractedContent) \<Rightarrow>
              ZipArchive (concat (map pageEntries extractedContent))))"

text \<open>A chain of middleware in front of a handler, as Express runs it.\<close>

fun runChain :: "middleware list \<Rightarrow> (request \<Rightarrow> response) \<Rightarrow> request \<Rightarrow> counters \<Rightarrow> response \<times> counters" where
  "runChain [] handler req m = (handler req, m)"
| "runChain (mw # mws) handler req m =
    (case mw req m of
       (Some res, m') \<Rightarrow> (res, m')
     | (None, m') \<Rightarrow> runChain mws handler req m')"

text \<open>
  The configuration that \<^verbatim>\<open>createApp\<close> passes, merged over the defaults, and the
  middleware that a request to \<^verbatim>\<open>POST /convert\<close> and \<^verbatim>\<open>POST /extract\<close> runs
  through that reads the request's size, client or file: \<^verbatim>\<open>dosProtection\<close>
  (mounted by \<^verbatim>\<open>app.use\<close>), then the route's \<^verbatim>\<open>upload.single('pdf')\<close> and
  \<^verbatim>\<open>validatePdfUpload\<close>.
\<close>

definition appDosConfig :: DosProtectionConfig where
  "appDosConfig =
    DEFAULT_DOS_CONFIG\<lparr>requestTimeoutMs := 60000, maxConcurrentPerIp := 5,
      maxBodySize := 15 * 1024 * 1024\<rparr>"

definition pdfRouteChain :: "middleware list" where
  "pdfRouteChain = dosProtection appDosConfig @ [uploadSingle, validatePdfUpload]"

definition convertRoute ::
    "(buffer \<Rightarrow> string + PDFDocumentProxy) \<Rightarrow>
     (PDFPageProxy \<Rightarrow> real \<Rightarrow> encoding \<Rightarrow> string + buffer) \<Rightarrow>
     request \<Rightarrow> counters \<Rightarrow> response \<times> counters" where
  "convertRoute getDocument rasterize = runChain pdfRouteChain (convertHandler getDocument rasterize)"

definition extractRoute ::
    "(real \<Rightarrow> real \<Rightarrow> real) \<Rightarrow> (buffer \<Rightarrow> string + PDFDocumentProxy) \<Rightarrow> canvas_lib \<Rightarrow>
     request \<Rightarrow> counters \<Rightarrow> response \<times> counters" where
  "extractRoute fsub getDocument lib =
    runChain pdfRouteChain (extractHandler fsub getDocument lib)"

section \<open>Stand-ins for the libraries\<close>

text \<open>
  Concrete values for the library parameters, used only to instantiate the
  theorems at concrete inputs. The canvas stand-in refuses a canvas with no
  pixels and writes a PNG signature in front of the pixels of any other; the
  \<^verbatim>\<open>pdf-lib\<close> stand-in reads the pixel size of an image from its first four
  bytes (two big-endian 16-bit numbers). The baselines of the stand-in pages are
  integers, whose double-precision difference is the exact one.
\<close>

definition toy_canvas :: canvas_lib where
  "toy_canvas =
    \<lparr>createCanvas = (\<lambda>w h. if w = 0 \<or> h = 0 then Some ''invalid canvas size'' else None),
     encodePng = (\<lambda>w h px. Inr ([0x89, 0x50, 0x4E, 0x47] @ px))\<rparr>"

definition toy_fsub :: "real \<Rightarrow> real \<Rightarrow> real" where
  "toy_fsub a b = a - b"

definition toy_dims :: "buffer \<Rightarrow> string + (nat \<times> nat)" where
  "toy_dims b =
    (case b of
       w1 # w0 # h1 # h0 # rest \<Rightarrow> Inr (256 * unat w1 + unat w0, 256 * unat h1 + unat h0)
     | _ \<Rightarrow> Inl ''truncated image'')"

definition toy_pdf_lib :: pdf_lib where
  "toy_pdf_lib =
    \<lparr>embedPng = toy_dims, embedJpg = toy_dims,
     save = (\<lambda>pages. Inr (concat (map (\<lambda>p. concat (map drawnImage (drawn p))) pages)))\<rparr>"

definition toy_size :: "ImageData \<Rightarrow> nat \<times> nat" where
  "toy_size img = (case toy_dims (buffer img) of Inl msg \<Rightarrow> (0, 0) | Inr dims \<Rightarrow> dims)"

text \<open>A two-page document: the first page paints an inline JPEG, an image that
  cannot be converted (it has no pixels), an image that the library resolves
  with \<^verbatim>\<open>null\<close> and a raw bitmap; the second page has text only.\<close>

definition toy_jpeg_obj :: imageObj where
  "toy_jpeg_obj = \<lparr>width = 2, height = 1, data = Some [0xFF, 0xD8, 0xFF, 0xE0], kind = 1\<rparr>"

definition toy_raw_obj :: imageObj where
  "toy_raw_obj = \<lparr>width = 1, height = 1, data = Some [0x0A, 0x14, 0x1E], kind = 2\<rparr>"

definition toy_broken_obj :: imageObj where
  "toy_broken_obj = \<lparr>width = 0, height = 3, data = None, kind = 2\<rparr>"

definition toy_page1 :: PDFPageProxy where
  "toy_page1 =
    \<lparr>getTextContent = Inr [TextItem ''Hello'' 700, TextItem ''World'' 680],
     getOperatorList =
       Inr [(PaintImageXObject, Some [''img_a'']), (OtherOp 31, Some []),
            (PaintImageXObject, Some [''img_broken'']), (PaintImageXObject, Some [''img_null'']),
            (PaintXObject, Some [''img_b''])],
     objs_get = (\<lambda>name. if name = Some ''img_a'' then Callback (Some toy_jpeg_obj)
                         else if name = Some ''img_b'' then Callback (Some toy_raw_obj)
                         else if name = Some ''img_broken'' then Callback (Some toy_broken_obj)
                         else Callback None)\<rparr>"

definition toy_page2 :: PDFPageProxy where
  "toy_page2 =
    \<lparr>getTextContent = Inr [TextItem ''Next'' 700],
     getOperatorList = Inr [],
     objs_get = (\<lambda>name. Callback None)\<rparr>"

definition toy_pages :: "nat \<Rightarrow> PDFPageProxy" where
  "toy_pages k = (if k = 1 then toy_page1 else toy_page2)"

definition toy_document :: PDFDocumentProxy where
  "toy_document =
    \<lparr>numPages = 2,
     getPage = (\<lambda>k. if k = 1 \<or> k = 2 then Inr (toy_pages k) else Inl ''Invalid page request'')\<rparr>"

definition toy_getDocument :: "buffer \<Rightarrow> string + PDFDocumentProxy" where
  "toy_getDocument b = Inr toy_document"

definition toy_upload :: ImageData where
  "toy_upload =
    \<lparr>buffer = [0x25, 0x50, 0x44, 0x46], mimetype = ''application/pdf'',
     originalname = ''toy.pdf''\<rparr>"

definition toy_request :: request where
  "toy_request =
    \<lparr>clientIp = ''10.0.0.1'', contentLength = 100, pdfPart = Some toy_upload,
     formatQuery = None\<rparr>"

text \<open>The rendering of a page by the stand-in: the signature of the encoding,
  then one byte per text item of the page.\<close>

definition toy_rasterize :: "PDFPageProxy \<Rightarrow> real \<Rightarrow> encoding \<Rightarrow> string + buffer" where
  "toy_rasterize page scl enc =
    Inr ((case enc of EncodeJpeg q \<Rightarrow> [0xFF, 0xD8] | EncodePng \<Rightarrow> [0x89, 0x50]) @
         replicate (length (case getTextContent page of Inl msg \<Rightarrow> [] | Inr its \<Rightarrow> its)) 0x2A)"


definition pending_page :: PDFPageProxy where
  "pending_page =
    \<lparr>getTextContent = Inr [TextItem ''Caption'' 700],
     getOperatorList = Inr [(PaintImageXObject, Some [''img_1''])],
     objs_get = (\<lambda>name. NoCallback)\<rparr>"

definition pending_getDocument :: "buffer \<Rightarrow> string + PDFDocumentProxy" where
  "pending_getDocument b =
    Inr \<lparr>numPages = 2,
         getPage = (\<lambda>k. if k = 1 then Inr pending_page
                        else if k = 2 then Inr toy_page2 else Inl ''Invalid page request'')\<rparr>"

text \<open>The content extracted from a three-page document, and an image constructor
  that never throws.\<close>

definition toy_content :: "ExtractedPageContent list" where
  "toy_content =
    [\<lparr>pageNumber = 1, textContent = ''Hello'' @ [CHR 0x0A] @ ''World'',
      images = [\<lparr>ei_buffer = [0xFF, 0xD8, 0xFF, 0xE0], ei_filename = ''page-1-image-1.jpg'',
                 ei_format = ''jpg''\<rparr>]\<rparr>,
     \<lparr>pageNumber = 2, textContent = ''Next'', images = []\<rparr>,
     \<lparr>pageNumber = 3, textContent = [], images = []\<rparr>]"

definition toy_imageRun :: "buffer \<Rightarrow> string \<Rightarrow> string option" where
  "toy_imageRun b t = None"

section \<open>Observations used to state the properties\<close>

text \<open>The number that follows \<^verbatim>\<open>page-\<close> in an entry name, and the number that
  follows \<^verbatim>\<open>-image-\<close> in the file name of an image of page \<open>pageNum\<close>.\<close>

definition isDigit :: "char \<Rightarrow> bool" where
  "isDigit c \<longleftrightarrow> c \<in> set ''0123456789''"

definition digitValue :: "char \<Rightarrow> nat" where
  "digitValue c = (of_char c :: nat) - 48"

definition readNat :: "string \<Rightarrow> nat" where
  "readNat s = foldl (\<lambda>acc c. 10 * acc + digitValue c) 0 (takeWhile isDigit s)"

definition nameToPage :: "string \<Rightarrow> nat" where
  "nameToPage name = readNat (drop 5 name)"

definition imageIndexOf :: "nat \<Rightarrow> string \<Rightarrow> nat" where
  "imageIndexOf pageNum name = readNat (drop (12 + length (show_nat pageNum)) name)"

text \<open>A buffer of ASCII text, and the crafted upload with 150 page markers after
  a PDF header.\<close>

definition ascii :: "string \<Rightarrow> buffer" where
  "ascii s = map (\<lambda>c. of_nat (of_char c)) s"

definition marker :: "code_unit list" where
  "marker = lit ''/Type /Page'' @ [10]"

definition crafted_pdf :: buffer where
  "crafted_pdf =
    ascii ''%PDF-1.4'' @ [0x0A] @ concat (replicate 150 (ascii ''/Type /Page'' @ [0x0A]))"

definition crafted_request :: request where
  "crafted_request =
    \<lparr>clientIp = ''10.0.0.1'', contentLength = 2200,
     pdfPart = Some \<lparr>buffer = crafted_pdf, mimetype = ''application/pdf'',
                     originalname = ''crafted.pdf''\<rparr>,
     formatQuery = None\<rparr>"

section \<open>Properties of the file validator\<close>

lemma lastIndexOf_None: "lastIndexOf c s = None \<longleftrightarrow> c \<notin> set s"
proof -
  have "lastIndexOf c s = None \<longleftrightarrow> (\<forall>i<length s. s ! i \<noteq> c)"
    by (auto simp: lastIndexOf_def find_None_iff)
  then show ?thesis
    by (metis in_set_conv_nth)
qed

lemma find_rev_upt_last:
  assumes "s \<noteq> []" "last s = c"
  shows "find (\<lambda>i. s ! i = c) (rev [0..<length s]) = Some (length s - 1)"
proof -
  obtain n where n: "length s = Suc n"
    using assms(1) by (cases s) auto
  have "s ! n = c"
    using assms n by (simp add: last_conv_nth)
  then show ?thesis
    by (simp add: n)
qed

lemma getExtension_no_dot: "CHR ''.'' \<notin> set filename \<Longrightarrow> getExtension filename = []"
  using lastIndexOf_None [of "CHR ''.''" filename] by (simp add: getExtension_def)

lemma getExtension_trailing_dot:
  "filename \<noteq> [] \<Longrightarrow> last filename = CHR ''.'' \<Longrightarrow> getExtension filename = []"
  by (simp add: getExtension_def lastIndexOf_def find_rev_upt_last)

lemma validateFile_no_extension_errors:
  assumes "getExtension filename = []"
  shows "list_all (\<lambda>e. \<not> is_extension_error e)
           (errors (validateFile buf filename mimeType allowedTypes))"
  using assms
  by (auto simp: validateFile_def Let_def split: option.splits)

lemma validateFile_no_extension_valid:
  assumes "getExtension filename = []"
  shows "isValid (validateFile buf filename mimeType allowedTypes) =
           magic_and_mime_pass buf mimeType allowedTypes"
  using assms
  by (auto simp: validateFile_def magic_and_mime_pass_def Let_def split: option.splits)

lemma flatMapDefs_extensions_nonempty: "[] \<notin> set (flatMapDefs extensions allowedTypes)"
  by (auto simp: flatMapDefs_def FILE_TYPE_DEFINITIONS_def split: option.splits if_splits)

text \<open>
  Claim C10. In \<^verbatim>\<open>FileValidator.validateFile\<close> the extension checks are skipped
  whenever the file name has no extension. \<^verbatim>\<open>getExtension\<close> returns the empty
  string for a name without a dot and for a name that ends in a dot; then no
  extension error is recorded, and the upload is valid exactly when the magic
  bytes and the MIME type pass, although the empty extension is none of the
  allowed extensions.
\<close>

theorem c10_extensionless_upload_skips_extension_checks:
  assumes "CHR ''.'' \<notin> set filename \<or> (filename \<noteq> [] \<and> last filename = CHR ''.'')"
  shows "getExtension filename = [] \<and>
         list_all (\<lambda>e. \<not> is_extension_error e)
           (errors (validateFile buf filename mimeType allowedTypes)) \<and>
         isValid (validateFile buf filename mimeType allowedTypes) =
           magic_and_mime_pass buf mimeType allowedTypes \<and>
         getExtension filename \<notin> set (flatMapDefs extensions allowedTypes)"
proof -
  have ext: "getExtension filename = []"
    using assms getExtension_no_dot getExtension_trailing_dot by blast
  show ?thesis
    using ext validateFile_no_extension_errors [OF ext] validateFile_no_extension_valid [OF ext]
      flatMapDefs_extensions_nonempty
    by simp
qed

theorem c10_extensionless_upload_witness:
  "getExtension ''document'' = [] \<and>
   list_all (\<lambda>e. \<not> is_extension_error e)
     (errors (validateFile [0x25, 0x50, 0x44, 0x46, 0x2D, 0x31, 0x2E, 0x34] ''document''
        ''application/pdf'' [''pdf''])) \<and>
   isValid (validateFile [0x25, 0x50, 0x44, 0x46, 0x2D, 0x31, 0x2E, 0x34] ''document''
     ''application/pdf'' [''pdf'']) \<and>
   getExtension ''document'' \<notin> set (flatMapDefs extensions [''pdf''])"
proof -
  have nodot: "CHR ''.'' \<notin> set ''document'' \<or> (''document'' \<noteq> [] \<and> last ''document'' = CHR ''.'')"
    by simp
  have pass: "magic_and_mime_pass [0x25, 0x50, 0x44, 0x46, 0x2D, 0x31, 0x2E, 0x34]
      ''application/pdf'' [''pdf'']"
    by code_simp
  show ?thesis
    using c10_extensionless_upload_skips_extension_checks
      [OF nodot, of "[0x25, 0x50, 0x44, 0x46, 0x2D, 0x31, 0x2E, 0x34]" "''application/pdf''" "[''pdf'']"]
      pass
    by (simp add: flatMapDefs_extensions_nonempty)
qed

section \<open>Properties of the concurrency limiter\<close>

lemma admitted_increments:
  "getCount m ip < maxConcurrent \<Longrightarrow>
   concurrentRequestLimiter maxConcurrent ip m = (True, m(ip \<mapsto> getCount m ip + 1))"
  by (simp add: concurrentRequestLimiter_def)

lemma cleanup_decrements: "getCount (cleanup ip m) ip = getCount m ip - 1"
  by (simp add: cleanup_def getCount_def Let_def)

lemma cleanup_twice: "getCount (cleanup ip (cleanup ip m)) ip = getCount m ip - 2"
  by (simp add: cleanup_decrements)

text \<open>
  Claim C2. The per-client counter is incremented once when a request is admitted
  and decremented exactly once when that request completes, on every exit path;
  so after an admitted request finishes the stored count of its client is the
  number of that client's admitted requests that are still active.

  The code runs \<open>cleanup\<close> on \<^verbatim>\<open>finish\<close> and again on \<^verbatim>\<open>close\<close>. With two
  requests of one client admitted, the first one completing leaves the stored
  count at 0 while the second is still active (only an aborted connection, which
  emits \<^verbatim>\<open>close\<close> alone, decrements once); with a cap of 2 the client then holds
  three active requests. In any state, the two events of one completed response
  lower the stored count of its client by two (down to zero).
\<close>

theorem c2_completed_response_decrements_twice:
  "getCount (concurrentRequests
     (run 5 ([Request 1 ''10.0.0.1'', Request 2 ''10.0.0.1''] @ completes 1))) ''10.0.0.1'' = 0 \<and>
   active_requests_of
     (run 5 ([Request 1 ''10.0.0.1'', Request 2 ''10.0.0.1''] @ completes 1)) ''10.0.0.1'' = [2] \<and>
   getCount (concurrentRequests
     (run 5 ([Request 1 ''10.0.0.1'', Request 2 ''10.0.0.1''] @ aborts 1))) ''10.0.0.1'' = 1 \<and>
   active_requests_of
     (run 2 ([Request 1 ''10.0.0.1'', Request 2 ''10.0.0.1''] @ completes 1 @
             [Request 3 ''10.0.0.1'', Request 4 ''10.0.0.1''])) ''10.0.0.1'' = [2, 3, 4] \<and>
   getCount (limiter_listener ip Close (limiter_listener ip Finish m)) ip = getCount m ip - 2"
proof -
  have "getCount (limiter_listener ip Close (limiter_listener ip Finish m)) ip = getCount m ip - 2"
    by (simp add: limiter_listener_def cleanup_twice)
  then show ?thesis
    by (simp add: run_def completes_def aborts_def concurrentRequestLimiter_def getCount_def
        limiter_listener_def cleanup_def init_state_def active_requests_of_def)
qed

section \<open>Properties of the text extraction\<close>

text \<open>
  Claim C4. \<^verbatim>\<open>extractTextFromPage\<close> inserts a line break between two consecutive
  text fragments exactly when the absolute difference of their baseline Y
  coordinates exceeds 5, and concatenates them otherwise; fragments at 100.0 and
  100.2 merge, fragments at 100 and 120 give two lines.

  The variable \<open>lastY\<close> starts at \<open>-1\<close> to mean that no fragment has been seen, so
  a fragment whose baseline is exactly \<open>-1\<close> is taken for none: the fragment
  after it is appended without a line break, whatever its baseline and whatever
  the subtraction \<open>fsub\<close> gives. For the fragments \<open>A\<close> at \<open>-1\<close> and \<open>B\<close> at 100 the
  result is \<open>AB\<close>, although the difference is 101 (both numbers and their
  difference are doubles, so no rounding is involved). The last equation gives
  the text of any two fragments: apart from the case of the baseline \<open>-1\<close>, the
  line break is there exactly when the difference as computed in double
  precision exceeds 5.
\<close>

theorem c4_baseline_minus_one_suppresses_line_break:
  "extractTextFromPage fsub
     (page\<lparr>getTextContent := Inr [TextItem ''A'' (- 1), TextItem ''B'' 100]\<rparr>) = Inr ''AB'' \<and>
   \<bar>(- 1) - 100\<bar> > (5 :: real) \<and>
   textLoop fsub text (- 1) (TextItem str ty # items) = textLoop fsub (text @ str) ty items \<and>
   extractTextFromPage fsub (page\<lparr>getTextContent := Inr [TextItem a y1, TextItem b y2]\<rparr>) =
     Inr (a @ (if y1 \<noteq> - 1 \<and> \<bar>fsub y1 y2\<bar> > 5 then [CHR 0x0A] else []) @ b)"
  by (simp add: extractTextFromPage_def)

section \<open>Properties of the image codec bridge\<close>

text \<open>
  Claim C3, as amended. For an image object that carries data beginning with the
  JPEG start-of-image marker \<open>0xFF 0xD8\<close>, once the scratch canvas has been
  created: when the object's \<open>kind\<close> is 1, \<^verbatim>\<open>convertImageObjToBuffer\<close> returns the
  format \<open>jpg\<close> and the data unchanged; when its \<open>kind\<close> is anything else, the
  data are copied as pixels and encoded as PNG.
\<close>

theorem c3_jpeg_passthrough_only_for_kind_1:
  assumes "createCanvas lib (width obj) (height obj) = None"
    and "data obj = Some (0xFF # 0xD8 # rest)"
  shows "convertImageObjToBuffer lib obj =
    (if kind obj = 1 then Inr (0xFF # 0xD8 # rest, ''jpg'')
     else (case encodePng lib (width obj) (height obj)
                  (copyPixels (0xFF # 0xD8 # rest) (replicate (4 * width obj * height obj) 0)) of
             Inl msg \<Rightarrow> Inl (''Failed to convert image object: '' @ msg)
           | Inr png \<Rightarrow> Inr (png, ''png'')))"
  using assms by (simp add: convertImageObjToBuffer_def)

theorem c3_jpeg_passthrough_witness:
  "createCanvas toy_canvas 1 1 = None \<and>
   convertImageObjToBuffer toy_canvas
     \<lparr>width = 1, height = 1, data = Some [0xFF, 0xD8, 0xFF, 0xE0], kind = 1\<rparr> =
   Inr ([0xFF, 0xD8, 0xFF, 0xE0], ''jpg'')"
  using c3_jpeg_passthrough_only_for_kind_1
    [of toy_canvas "\<lparr>width = 1, height = 1, data = Some [0xFF, 0xD8, 0xFF, 0xE0], kind = 1\<rparr>"
        "[0xFF, 0xE0]"]
  by (simp add: toy_canvas_def)

text \<open>The claim as stated fails: data that begin \<open>0xFF 0xD8\<close> in an object of
  kind 2 come back re-encoded, with the format \<open>png\<close>.\<close>

theorem c3_jpeg_bytes_of_kind_2_are_reencoded:
  "convertImageObjToBuffer toy_canvas
     \<lparr>width = 1, height = 1, data = Some [0xFF, 0xD8, 0xFF, 0xE0], kind = 2\<rparr> =
   Inr ([0x89, 0x50, 0x4E, 0x47, 0xFF, 0xD8, 0xFF, 0xE0], ''png'')"
  by code_simp

section \<open>Properties of the reverse composer\<close>

lemma addImageToPdf_ok:
  "embedByFormat lib img = Inr dims \<Longrightarrow> addImageToPdf lib doc img = Inr (doc @ [image_page img dims])"
  by (cases dims) (simp add: addImageToPdf_def image_page_def)

lemma addImageToPdf_fail:
  "embedByFormat lib img = Inl msg \<Longrightarrow> addImageToPdf lib doc img = Inl (''Failed to embed image: '' @ msg)"
  by (simp add: addImageToPdf_def)

lemma addImages_all_ok:
  "list_all (\<lambda>img. embedByFormat lib img = Inr (dims img)) imgs \<Longrightarrow>
   addImages lib i doc imgs = Inr (doc @ map (\<lambda>img. image_page img (dims img)) imgs)"
  by (induction imgs arbitrary: i doc) (simp_all add: addImageToPdf_ok)

lemma addImages_first_failure:
  assumes "list_all (\<lambda>p. \<not> isl (embedByFormat lib p)) pre" and "embedByFormat lib img = Inl msg"
  shows "addImages lib i doc (pre @ img # post) =
    Inl (''Failed to process image '' @ show_nat (i + length pre + 1) @ '' ('' @
         originalname img @ ''): Failed to embed image: '' @ msg)"
  using assms
proof (induction pre arbitrary: i doc)
  case Nil
  then show ?case by (simp add: addImageToPdf_fail)
next
  case (Cons p pre)
  from Cons.prems obtain d where d: "embedByFormat lib p = Inr d"
    by (cases "embedByFormat lib p") auto
  show ?case
    using Cons.IH [of "i + 1" "doc @ [image_page p d]"] Cons.prems d
    by (simp add: addImageToPdf_ok)
qed

lemma creationCatch_process:
  "creationCatch (''Failed to process image '' @ rest) = ''Failed to process image '' @ rest"
proof -
  have "prefix ''Failed to process image'' (''Failed to process image '' @ rest)"
    by simp
  then have "sublist ''Failed to process image'' (''Failed to process image '' @ rest)"
    by (rule prefix_imp_sublist)
  then show ?thesis
    by (simp only: creationCatch_def if_True)
qed

lemma embedByFormat_unsupported:
  "\<not> isValidImageFormat (mimetype img) \<Longrightarrow>
   embedByFormat lib img = Inl (''Unsupported image format: '' @ mimetype img @
                        ''. Only PNG and JPEG are supported.'')"
  by (simp add: embedByFormat_def isValidImageFormat_def)

lemma addImages_Inr_all_ok:
  "addImages lib i doc imgs = Inr d \<Longrightarrow> list_all (\<lambda>p. \<not> isl (embedByFormat lib p)) imgs"
proof (induction imgs arbitrary: i doc)
  case Nil
  then show ?case by simp
next
  case (Cons p ps)
  then show ?case
    by (cases "embedByFormat lib p") (auto simp: addImageToPdf_def split: sum.splits prod.splits)
qed

lemma convert_Inr_all_ok:
  "convertImagesToPdf lib imgs = Inr b \<Longrightarrow> imgs \<noteq> [] \<and> list_all (\<lambda>p. \<not> isl (embedByFormat lib p)) imgs"
  by (auto simp: convertImagesToPdf_def split: if_splits sum.splits dest: addImages_Inr_all_ok)

lemma validateEach_first_bad_format:
  assumes "list_all (\<lambda>p. buffer p \<noteq> [] \<and> isValidImageFormat (mimetype p)) pre"
    and "buffer img \<noteq> []" and "\<not> isValidImageFormat (mimetype img)"
  shows "validateEach i (pre @ img # post) =
    Some (''Image '' @ show_nat (i + length pre + 1) @ '' ('' @ originalname img @
          '') has unsupported format: '' @ mimetype img)"
  using assms by (induction pre arbitrary: i) auto


lemma validateImages_Nil: "validateImages [] = Some ''At least one image is required''"
  by (simp add: validateImages_def)

text \<open>
  Claim C5. For every non-empty list of images whose format is PNG or JPEG and
  that the library decodes, \<^verbatim>\<open>convertImagesToPdf\<close> builds a document with exactly
  one page per image, in input order; the page has the pixel width and height of
  its image, and the image is drawn at the origin with that width and height.
  The buffer returned is what the library's \<^verbatim>\<open>save\<close> makes of that document.
  (\<open>dims\<close> gives the pixel size the decoder reports for each image.)
\<close>

theorem c5_one_page_per_image:
  assumes "imgs \<noteq> []"
    and "list_all (\<lambda>img.
           (mimetype img = ''image/png'' \<and> embedPng lib (buffer img) = Inr (dims img)) \<or>
           (mimetype img = ''image/jpeg'' \<and> embedJpg lib (buffer img) = Inr (dims img))) imgs"
  shows "addImages lib 0 [] imgs =
           Inr (map (\<lambda>img. \<lparr>pageWidth = fst (dims img), pageHeight = snd (dims img),
                          drawn = [\<lparr>drawnImage = buffer img, drawX = 0, drawY = 0,
                                    drawWidth = fst (dims img), drawHeight = snd (dims img)\<rparr>]\<rparr>)
                  imgs) \<and>
         convertImagesToPdf lib imgs =
           (case save lib
                   (map (\<lambda>img. \<lparr>pageWidth = fst (dims img), pageHeight = snd (dims img),
                          drawn = [\<lparr>drawnImage = buffer img, drawX = 0, drawY = 0,
                                    drawWidth = fst (dims img), drawHeight = snd (dims img)\<rparr>]\<rparr>)
                      imgs) of
              Inl msg \<Rightarrow> Inl (creationCatch msg)
            | Inr pdfBytes \<Rightarrow> Inr pdfBytes)"
proof -
  have "list_all (\<lambda>img. embedByFormat lib img = Inr (dims img)) imgs"
    using assms(2) by (induction imgs) (auto simp: embedByFormat_def)
  then have "addImages lib 0 [] imgs = Inr (map (\<lambda>img. image_page img (dims img)) imgs)"
    using addImages_all_ok [of lib dims imgs 0 "[]"] by simp
  then show ?thesis
    using assms(1) by (simp add: convertImagesToPdf_def image_page_def)
qed

theorem c5_two_images_witness:
  "[\<lparr>buffer = [0x01, 0x2C, 0x00, 0xC8], mimetype = ''image/png'', originalname = ''a.png''\<rparr>,
    \<lparr>buffer = [0x00, 0x96, 0x00, 0x96], mimetype = ''image/jpeg'', originalname = ''b.jpg''\<rparr>] \<noteq> [] \<and>
   addImages toy_pdf_lib 0 []
     [\<lparr>buffer = [0x01, 0x2C, 0x00, 0xC8], mimetype = ''image/png'', originalname = ''a.png''\<rparr>,
      \<lparr>buffer = [0x00, 0x96, 0x00, 0x96], mimetype = ''image/jpeg'', originalname = ''b.jpg''\<rparr>] =
   Inr [\<lparr>pageWidth = 300, pageHeight = 200,
         drawn = [\<lparr>drawnImage = [0x01, 0x2C, 0x00, 0xC8], drawX = 0, drawY = 0,
                   drawWidth = 300, drawHeight = 200\<rparr>]\<rparr>,
        \<lparr>pageWidth = 150, pageHeight = 150,
         drawn = [\<lparr>drawnImage = [0x00, 0x96, 0x00, 0x96], drawX = 0, drawY = 0,
                   drawWidth = 150, drawHeight = 150\<rparr>]\<rparr>] \<and>
   convertImagesToPdf toy_pdf_lib
     [\<lparr>buffer = [0x01, 0x2C, 0x00, 0xC8], mimetype = ''image/png'', originalname = ''a.png''\<rparr>,
      \<lparr>buffer = [0x00, 0x96, 0x00, 0x96], mimetype = ''image/jpeg'', originalname = ''b.jpg''\<rparr>] =
   Inr [0x01, 0x2C, 0x00, 0xC8, 0x00, 0x96, 0x00, 0x96]"
  using c5_one_page_per_image
    [of "[\<lparr>buffer = [0x01, 0x2C, 0x00, 0xC8], mimetype = ''image/png'', originalname = ''a.png''\<rparr>,
          \<lparr>buffer = [0x00, 0x96, 0x00, 0x96], mimetype = ''image/jpeg'', originalname = ''b.jpg''\<rparr>]"
        toy_pdf_lib toy_size]
  by (simp add: toy_pdf_lib_def toy_size_def toy_dims_def)

text \<open>
  Claim C6, as amended. \<^verbatim>\<open>convertImagesToPdf\<close> (and \<^verbatim>\<open>validateImages\<close>) fail with
  "At least one image is required" on an empty list. On a list in which the
  images \<open>pre\<close> embed and the next image \<open>img\<close> does not, the whole call fails with
  an error that names the 1-based index of \<open>img\<close>; an image whose format is
  neither PNG nor JPEG fails to embed with "Unsupported image format", so that
  error is reported when no earlier image fails. Whenever the call returns a
  document, every input image was embedded. \<^verbatim>\<open>validateImages\<close> reports the
  unsupported format of \<open>img\<close> when \<open>img\<close> and the images before it have data and
  the images before it have a supported format.
\<close>

theorem c6_first_failing_image_aborts:
  assumes "list_all (\<lambda>p. \<not> isl (embedByFormat lib p)) pre"
    and "embedByFormat lib img = Inl msg"
  shows "convertImagesToPdf lib [] = Inl ''At least one image is required'' \<and>
         validateImages [] = Some ''At least one image is required'' \<and>
         convertImagesToPdf lib (pre @ img # post) =
           Inl (''Failed to process image '' @ show_nat (length pre + 1) @ '' ('' @
                originalname img @ ''): Failed to embed image: '' @ msg) \<and>
         (isValidImageFormat (mimetype img) \<or>
          msg = ''Unsupported image format: '' @ mimetype img @
                ''. Only PNG and JPEG are supported.'') \<and>
         (case convertImagesToPdf lib imgs of
            Inl e \<Rightarrow> True
          | Inr pdfBytes \<Rightarrow> imgs \<noteq> [] \<and> list_all (\<lambda>p. \<not> isl (embedByFormat lib p)) imgs) \<and>
         (if list_all (\<lambda>p. buffer p \<noteq> [] \<and> isValidImageFormat (mimetype p)) pre \<and>
             buffer img \<noteq> [] \<and> \<not> isValidImageFormat (mimetype img)
          then validateImages (pre @ img # post) =
                 Some (''Image '' @ show_nat (length pre + 1) @ '' ('' @ originalname img @
                       '') has unsupported format: '' @ mimetype img)
          else True)"
proof -
  have "addImages lib 0 [] (pre @ img # post) =
    Inl (''Failed to process image '' @ show_nat (length pre + 1) @ '' ('' @
         originalname img @ ''): Failed to embed image: '' @ msg)"
    using addImages_first_failure [OF assms, of 0 "[]" post] by simp
  then have first: "convertImagesToPdf lib (pre @ img # post) =
    Inl (''Failed to process image '' @ show_nat (length pre + 1) @ '' ('' @
         originalname img @ ''): Failed to embed image: '' @ msg)"
    using creationCatch_process by (simp add: convertImagesToPdf_def)
  have empty: "convertImagesToPdf lib [] = Inl ''At least one image is required''"
    by (simp add: convertImagesToPdf_def)
  have unsupported: "isValidImageFormat (mimetype img) \<or>
          msg = ''Unsupported image format: '' @ mimetype img @
                ''. Only PNG and JPEG are supported.''"
    using assms(2) embedByFormat_unsupported [of img lib] by auto
  have whole: "(case convertImagesToPdf lib imgs of
            Inl e \<Rightarrow> True
          | Inr pdfBytes \<Rightarrow> imgs \<noteq> [] \<and> list_all (\<lambda>p. \<not> isl (embedByFormat lib p)) imgs)"
    using convert_Inr_all_ok [of lib imgs] by (cases "convertImagesToPdf lib imgs") auto
  have validate: "(if list_all (\<lambda>p. buffer p \<noteq> [] \<and> isValidImageFormat (mimetype p)) pre \<and>
             buffer img \<noteq> [] \<and> \<not> isValidImageFormat (mimetype img)
          then validateImages (pre @ img # post) =
                 Some (''Image '' @ show_nat (length pre + 1) @ '' ('' @ originalname img @
                       '') has unsupported format: '' @ mimetype img)
          else True)"
    using validateEach_first_bad_format [of pre img 0 post]
    by (simp add: validateImages_def)
  show ?thesis
    using first empty unsupported whole validate validateImages_Nil by simp
qed

theorem c6_unsupported_second_image_witness:
  "list_all (\<lambda>p. \<not> isl (embedByFormat toy_pdf_lib p))
     [\<lparr>buffer = [0x01, 0x2C, 0x00, 0xC8], mimetype = ''image/png'', originalname = ''a.png''\<rparr>] \<and>
   embedByFormat toy_pdf_lib
     \<lparr>buffer = [0x47, 0x49, 0x46, 0x38], mimetype = ''image/gif'', originalname = ''b.gif''\<rparr> =
     Inl ''Unsupported image format: image/gif. Only PNG and JPEG are supported.'' \<and>
   convertImagesToPdf toy_pdf_lib [] = Inl ''At least one image is required'' \<and>
   convertImagesToPdf toy_pdf_lib
     [\<lparr>buffer = [0x01, 0x2C, 0x00, 0xC8], mimetype = ''image/png'', originalname = ''a.png''\<rparr>,
      \<lparr>buffer = [0x47, 0x49, 0x46, 0x38], mimetype = ''image/gif'', originalname = ''b.gif''\<rparr>,
      \<lparr>buffer = [0x00, 0x96, 0x00, 0x96], mimetype = ''image/jpeg'', originalname = ''c.jpg''\<rparr>] =
     Inl (''Failed to process image 2 (b.gif): Failed to embed image: '' @
          ''Unsupported image format: image/gif. Only PNG and JPEG are supported.'') \<and>
   validateImages
     [\<lparr>buffer = [0x01, 0x2C, 0x00, 0xC8], mimetype = ''image/png'', originalname = ''a.png''\<rparr>,
      \<lparr>buffer = [0x47, 0x49, 0x46, 0x38], mimetype = ''image/gif'', originalname = ''b.gif''\<rparr>,
      \<lparr>buffer = [0x00, 0x96, 0x00, 0x96], mimetype = ''image/jpeg'', originalname = ''c.jpg''\<rparr>] =
     Some ''Image 2 (b.gif) has unsupported format: image/gif''"
proof -
  have pre: "list_all (\<lambda>p. \<not> isl (embedByFormat toy_pdf_lib p))
     [\<lparr>buffer = [0x01, 0x2C, 0x00, 0xC8], mimetype = ''image/png'', originalname = ''a.png''\<rparr>]"
    by (simp add: embedByFormat_def toy_pdf_lib_def toy_dims_def)
  have bad: "embedByFormat toy_pdf_lib
     \<lparr>buffer = [0x47, 0x49, 0x46, 0x38], mimetype = ''image/gif'', originalname = ''b.gif''\<rparr> =
     Inl ''Unsupported image format: image/gif. Only PNG and JPEG are supported.''"
    by (simp add: embedByFormat_def)
  have two: "show_nat (Suc (Suc 0)) = ''2''"
    by (simp add: show_nat.simps)
  show ?thesis
    using c6_first_failing_image_aborts [OF pre bad,
      of "[\<lparr>buffer = [0x00, 0x96, 0x00, 0x96], mimetype = ''image/jpeg'', originalname = ''c.jpg''\<rparr>]"
          "[\<lparr>buffer = [0x01, 0x2C, 0x00, 0xC8], mimetype = ''image/png'', originalname = ''a.png''\<rparr>]"]
      pre bad two
    by (simp add: isValidImageFormat_def)
qed

text \<open>The claim as stated fails: with a first image that cannot be embedded (it
  has no data), the unsupported format of the second image is not what the error
  reports, neither in \<^verbatim>\<open>convertImagesToPdf\<close> nor in \<^verbatim>\<open>validateImages\<close>.\<close>

theorem c6_earlier_failure_hides_unsupported_format:
  "convertImagesToPdf toy_pdf_lib
     [\<lparr>buffer = [], mimetype = ''image/png'', originalname = ''a.png''\<rparr>,
      \<lparr>buffer = [0x47, 0x49, 0x46, 0x38], mimetype = ''image/gif'', originalname = ''b.gif''\<rparr>] =
     Inl ''Failed to process image 1 (a.png): Failed to embed image: truncated image'' \<and>
   validateImages
     [\<lparr>buffer = [], mimetype = ''image/png'', originalname = ''a.png''\<rparr>,
      \<lparr>buffer = [0x47, 0x49, 0x46, 0x38], mimetype = ''image/gif'', originalname = ''b.gif''\<rparr>] =
     Some ''Image 1 has no data''"
  by code_simp

section \<open>Properties of the document reconstructor\<close>

lemma pageBreaks_append [simp]: "pageBreaks (xs @ ys) = pageBreaks xs + pageBreaks ys"
  by (simp add: pageBreaks_def)

lemma pageBreaks_Nil [simp]: "pageBreaks [] = 0"
  by (simp add: pageBreaks_def)

lemma pageBreaks_Cons [simp]:
  "pageBreaks (par # ps) = (if par = PageBreakParagraph then 1 else 0) + pageBreaks ps"
  by (simp add: pageBreaks_def)

lemma pageBreaks_text [simp]: "pageBreaks (convertTextToParagraphs txt) = 0"
  by (simp add: pageBreaks_def convertTextToParagraphs_def Let_def filter_empty_conv)

lemma pageBreaks_images [simp]: "pageBreaks (imageParagraphs imageRun imgs) = 0"
  by (induction imgs) (auto simp: createImageParagraph_def Let_def split: option.splits)

lemma pageBreaks_page [simp]: "pageBreaks (pageParagraphs imageRun n incl page) = 0"
  by (simp add: pageParagraphs_def)

lemma pageBreaks_buildFrom:
  "pageBreaks (buildFrom imageRun (i + length pages) incl True i pages) = length pages - 1"
proof (induction pages arbitrary: i)
  case Nil
  then show ?case by simp
next
  case (Cons page rest)
  have "pageBreaks (buildFrom imageRun (Suc i + length rest) incl True (Suc i) rest) = length rest - 1"
    using Cons.IH [of "Suc i"] by simp
  then show ?case
    by (cases rest) auto
qed

lemma buildFrom_shape:
  "pages \<noteq> [] \<Longrightarrow> buildFrom imageRun (i + length pages) incl True i pages =
   concat (map (\<lambda>page. pageParagraphs imageRun (i + length pages) incl page @ [PageBreakParagraph])
             (butlast pages)) @
   pageParagraphs imageRun (i + length pages) incl (last pages)"
proof (induction pages arbitrary: i)
  case Nil
  then show ?case by simp
next
  case (Cons page rest)
  show ?case
  proof (cases rest)
    case Nil
    then show ?thesis by simp
  next
    case (Cons q qs)
    have "buildFrom imageRun (Suc i + length rest) incl True (Suc i) rest =
      concat (map (\<lambda>page. pageParagraphs imageRun (Suc i + length rest) incl page @ [PageBreakParagraph])
             (butlast rest)) @
      pageParagraphs imageRun (Suc i + length rest) incl (last rest)"
      using Cons.IH [of "Suc i"] Cons by simp
    then show ?thesis
      using Cons by simp
  qed
qed

text \<open>
  Claim C9. \<^verbatim>\<open>buildDocxContent\<close> with \<^verbatim>\<open>preservePageBreaks = true\<close> pushes a page
  break after the paragraphs of every page except the last: for \<open>P\<close> pages the
  output holds exactly \<open>P - 1\<close> page breaks (two for three pages), each right
  after the paragraphs of a page that is not the last, and the paragraphs of a
  page hold none.
\<close>

theorem c9_page_break_after_every_page_but_the_last:
  "pageBreaks (buildDocxContent imageRun pages includeImages True) = length pages - 1 \<and>
   pageBreaks (buildDocxContent imageRun [p1, p2, p3] includeImages True) = 2 \<and>
   buildDocxContent imageRun pages includeImages True =
     (if pages = [] then []
      else concat (map (\<lambda>page. pageParagraphs imageRun (length pages) includeImages page @
                               [PageBreakParagraph])
                     (butlast pages)) @
           pageParagraphs imageRun (length pages) includeImages (last pages)) \<and>
   pageBreaks (pageParagraphs imageRun (length pages) includeImages page) = 0"
proof -
  have count: "pageBreaks (buildDocxContent imageRun ps includeImages True) = length ps - 1" for ps
    using pageBreaks_buildFrom [of imageRun 0 ps includeImages]
    by (simp add: buildDocxContent_def)
  have shape: "buildDocxContent imageRun pages includeImages True =
     (if pages = [] then []
      else concat (map (\<lambda>page. pageParagraphs imageRun (length pages) includeImages page @
                               [PageBreakParagraph])
                     (butlast pages)) @
           pageParagraphs imageRun (length pages) includeImages (last pages))"
    using buildFrom_shape [of pages imageRun 0 includeImages]
    by (simp add: buildDocxContent_def)
  show ?thesis
    using count [of pages] count [of "[p1, p2, p3]"] shape by simp
qed

theorem c9_three_pages_witness:
  "buildDocxContent toy_imageRun toy_content True True =
     [PageLabel 1, TextParagraph ''Hello'', TextParagraph ''World'',
      ImageParagraph [0xFF, 0xD8, 0xFF, 0xE0] ''jpg'', PageBreakParagraph,
      PageLabel 2, TextParagraph ''Next'', PageBreakParagraph,
      PageLabel 3] \<and>
   pageBreaks (buildDocxContent toy_imageRun toy_content True True) = 2 \<and>
   length toy_content = 3"
proof -
  have val: "buildDocxContent toy_imageRun toy_content True True =
     [PageLabel 1, TextParagraph ''Hello'', TextParagraph ''World'',
      ImageParagraph [0xFF, 0xD8, 0xFF, 0xE0] ''jpg'', PageBreakParagraph,
      PageLabel 2, TextParagraph ''Next'', PageBreakParagraph,
      PageLabel 3]"
    by code_simp
  have len: "length toy_content = 3"
    by (simp add: toy_content_def)
  have two: "pageBreaks (buildDocxContent toy_imageRun toy_content True True) = 2"
    using c9_page_break_after_every_page_but_the_last
      [where imageRun = toy_imageRun and pages = toy_content and includeImages = True,
       THEN conjunct1]
      len
    by simp
  show ?thesis
    using val two len by (intro conjI)
qed

section \<open>Properties of the content extractor\<close>

lemma digit_char: "d < 10 \<Longrightarrow> isDigit (''0123456789'' ! d) \<and> digitValue (''0123456789'' ! d) = d"
proof -
  assume "d < 10"
  then have "d \<in> {0, 1, 2, 3, 4, 5, 6, 7, 8, 9}" by auto
  then show ?thesis
    by (auto simp: isDigit_def digitValue_def)
qed

lemma show_nat_digits: "list_all isDigit (show_nat n)"
proof (induction n rule: show_nat.induct)
  case (1 n)
  show ?case
  proof (cases "n < 10")
    case True
    then show ?thesis
      using digit_char [of n] by (subst show_nat.simps) simp
  next
    case False
    then show ?thesis
      using 1 digit_char [of "n mod 10"] by (subst show_nat.simps) simp
  qed
qed

lemma foldl_show_nat:
  "foldl (\<lambda>acc c. 10 * acc + digitValue c) 0 (show_nat n) = n"
proof (induction n rule: show_nat.induct)
  case (1 n)
  show ?case
  proof (cases "n < 10")
    case True
    then show ?thesis
      using digit_char [of n] by (subst show_nat.simps) simp
  next
    case False
    then show ?thesis
      using 1 digit_char [of "n mod 10"] by (subst show_nat.simps) simp
  qed
qed

lemma readNat_show_nat:
  "\<not> isDigit c \<Longrightarrow> readNat (show_nat n @ c # rest) = n"
proof -
  assume c: "\<not> isDigit c"
  have "takeWhile isDigit (show_nat n @ c # rest) = show_nat n"
    using show_nat_digits [of n] c
    by (simp add: takeWhile_append2 list_all_iff takeWhile_tail)
  then show ?thesis
    by (simp add: readNat_def foldl_show_nat)
qed

lemma nameToPage_page:
  "\<not> isDigit c \<Longrightarrow> nameToPage (''page-'' @ show_nat n @ c # rest) = n"
  by (simp add: nameToPage_def readNat_show_nat)

lemma imageIndexOf_imageFilename:
  "imageIndexOf pageNum (imageFilename pageNum i fmt) = i"
proof -
  have split: "imageFilename pageNum i fmt =
      (''page-'' @ show_nat pageNum @ ''-image-'') @ (show_nat i @ CHR ''.'' # fmt)"
    by (simp add: imageFilename_def)
  have len: "length (''page-'' @ show_nat pageNum @ ''-image-'') = 12 + length (show_nat pageNum)"
    by simp
  have "drop (12 + length (show_nat pageNum)) (imageFilename pageNum i fmt) =
      show_nat i @ CHR ''.'' # fmt"
    unfolding split len [symmetric] by (rule append_eq_conv_conj [THEN iffD1, THEN conjunct2, symmetric]) simp
  moreover have "\<not> isDigit CHR ''.''"
    by (simp add: isDigit_def)
  ultimately show ?thesis
    by (simp add: imageIndexOf_def readNat_show_nat)
qed

lemma walk_indices:
  "walk lib page pageNum ins imgs idx logged = Some (imgs', logged') \<Longrightarrow>
   \<exists>k. map (imageIndexOf pageNum \<circ> ei_filename) imgs' =
        map (imageIndexOf pageNum \<circ> ei_filename) imgs @ [idx..<idx + k]"
proof (induction ins arbitrary: imgs idx logged)
  case Nil
  then show ?case by (intro exI [of _ 0]) simp
next
  case (Cons i ins)
  show ?case
  proof (cases "paintOutcome lib page i")
    case NotImage
    then show ?thesis using Cons.IH [of imgs idx logged] Cons.prems by simp
  next
    case Falsy
    then show ?thesis using Cons.IH [of imgs idx logged] Cons.prems by simp
  next
    case (Thrown msg)
    then show ?thesis using Cons.IH [of imgs idx] Cons.prems by simp
  next
    case Pending
    then show ?thesis using Cons.prems by simp
  next
    case (Extracted buf fmt)
    define new where
      "new = \<lparr>ei_buffer = buf, ei_filename = imageFilename pageNum idx fmt, ei_format = fmt\<rparr>"
    have step: "walk lib page pageNum ins (imgs @ [new]) (Suc idx) logged = Some (imgs', logged')"
      using Extracted Cons.prems by (simp add: new_def)
    obtain k where k: "map (imageIndexOf pageNum \<circ> ei_filename) imgs' =
        map (imageIndexOf pageNum \<circ> ei_filename) (imgs @ [new]) @ [Suc idx..<Suc idx + k]"
      using Cons.IH [OF step] by blast
    have new: "map (imageIndexOf pageNum \<circ> ei_filename) (imgs @ [new]) =
        map (imageIndexOf pageNum \<circ> ei_filename) imgs @ [idx]"
      by (simp add: new_def imageIndexOf_imageFilename)
    have upt: "[idx..<idx + Suc k] = [idx] @ [Suc idx..<Suc idx + k]"
      by (subst upt_rec) simp
    show ?thesis
      by (rule exI [of _ "Suc k"]) (simp only: k new upt append_assoc)
  qed
qed

lemma walk_distinct_filenames:
  assumes "walk lib page pageNum ins [] idx [] = Some (imgs', logged')"
  shows "distinct (map ei_filename imgs')"
proof -
  obtain k where "map (imageIndexOf pageNum \<circ> ei_filename) imgs' = [idx..<idx + k]"
    using walk_indices [OF assms] by auto
  then have "distinct (map (imageIndexOf pageNum \<circ> ei_filename) imgs')"
    by simp
  then have "distinct (map (imageIndexOf pageNum) (map ei_filename imgs'))"
    by (simp only: map_map)
  then show ?thesis
    using distinct_map [of "imageIndexOf pageNum"] by blast
qed

lemma extractImagesFromPage_distinct:
  "extractImagesFromPage lib page k = Some (Inr found) \<Longrightarrow> distinct (map ei_filename (fst found))"
  using walk_distinct_filenames [of lib page k _ 1 "fst found" "snd found"]
  by (auto simp: extractImagesFromPage_def split: sum.splits option.splits)

lemma mapE_map:
  assumes "mapE f xs = Inr ys" and "\<And>a b. f a = Inr b \<Longrightarrow> g b = h a"
  shows "map g ys = map h xs"
  using assms(1)
proof (induction xs arbitrary: ys)
  case Nil
  then show ?case by simp
next
  case (Cons a xs)
  then show ?case
    using assms(2) by (auto split: sum.splits)
qed

lemma mapE_length: "mapE f xs = Inr ys \<Longrightarrow> length ys = length xs"
  by (induction xs arbitrary: ys) (auto split: sum.splits)

lemma mapE_Inr_iff: "mapE f xs = Inr ys \<longleftrightarrow> list_all2 (\<lambda>x y. f x = Inr y) xs ys"
proof
  show "mapE f xs = Inr ys \<Longrightarrow> list_all2 (\<lambda>x y. f x = Inr y) xs ys"
    by (induction xs arbitrary: ys) (auto split: sum.splits)
  show "list_all2 (\<lambda>x y. f x = Inr y) xs ys \<Longrightarrow> mapE f xs = Inr ys"
    by (induction rule: list_all2_induct) auto
qed

lemma mapEO_Inr_iff:
  "mapEO f xs = Some (Inr ys) \<longleftrightarrow> list_all2 (\<lambda>x y. f x = Some (Inr y)) xs ys"
proof
  show "mapEO f xs = Some (Inr ys) \<Longrightarrow> list_all2 (\<lambda>x y. f x = Some (Inr y)) xs ys"
    by (induction xs arbitrary: ys) (auto split: sum.splits option.splits)
  show "list_all2 (\<lambda>x y. f x = Some (Inr y)) xs ys \<Longrightarrow> mapEO f xs = Some (Inr ys)"
    by (induction rule: list_all2_induct) auto
qed








text \<open>A lookup that never calls back: the walk of the page, the extraction of
  the document and the handler never return, and the text of the page and the
  pages after it are not produced.\<close>

lemma pending_lookup_blocks_extraction:
  "paintOutcome lib pending_page (PaintImageXObject, Some [''img_1'']) = Pending \<and>
   extractImagesFromPage lib pending_page 1 = None \<and>
   extractPdfContent fsub pending_getDocument lib b = None \<and>
   extractHandler fsub pending_getDocument lib toy_request = NoResponse"
  by (simp add: paintOutcome_def isImageOp_def pending_page_def extractImagesFromPage_def
      extractPdfContent_def loadPdfDocument_def pending_getDocument_def extractOnePage_def
      extractTextFromPage_def extractHandler_def toy_request_def upt_rec)




section \<open>Page numbers, entry order and file names\<close>

lemma not_digit_dot: "\<not> isDigit CHR ''.''" and not_digit_dash: "\<not> isDigit CHR ''-''"
  by (simp_all add: isDigit_def)

lemma convertOnePage_fields:
  "convertOnePage rasterize pdfDoc fmt scl qual k = Inr p \<Longrightarrow>
   cp_pageNumber p = k \<and> cp_filename p = ''page-'' @ show_nat k @ ''.'' @ fmt"
  by (auto simp: convertOnePage_def split: sum.splits)

lemma nameToPage_dot: "nameToPage (''page-'' @ show_nat k @ ''.'' @ fmt) = k"
  using nameToPage_page [OF not_digit_dot, of k fmt] by simp

lemma nameToPage_txt: "nameToPage (''page-'' @ show_nat k @ ''.txt'') = k"
  using nameToPage_page [OF not_digit_dot, of k "''txt''"] by simp

lemma nameToPage_images: "nameToPage (''page-'' @ show_nat k @ ''-images/'' @ rest) = k"
  using nameToPage_page [OF not_digit_dash, of k "''images/'' @ rest"] by simp

lemma convertPdfToImages_numbers:
  assumes "convertPdfToImages getDocument rasterize pdfBuffer fmt = Inr ps"
  shows "map cp_pageNumber ps = [1..<Suc (length ps)] \<and>
         map cp_filename ps = map (\<lambda>k. ''page-'' @ show_nat k @ ''.'' @ fmt) [1..<Suc (length ps)] \<and>
         map (nameToPage \<circ> cp_filename) ps = [1..<Suc (length ps)]"
proof -
  from assms obtain pdfDoc where
    m: "mapE (convertOnePage rasterize pdfDoc fmt defaultScale defaultQuality)
          [1..<Suc (numPages pdfDoc)] = Inr ps"
    by (auto simp: convertPdfToImages_def split: sum.splits)
  have "length ps = length [1..<Suc (numPages pdfDoc)]"
    using mapE_length [OF m] .
  then have len: "numPages pdfDoc = length ps"
    by simp
  have "map cp_pageNumber ps = map (\<lambda>k. k) [1..<Suc (numPages pdfDoc)]"
    using mapE_map [OF m, of cp_pageNumber "\<lambda>k. k"] convertOnePage_fields by blast
  then have a: "map cp_pageNumber ps = [1..<Suc (length ps)]"
    by (simp only: list.map_ident len)
  have "map cp_filename ps = map (\<lambda>k. ''page-'' @ show_nat k @ ''.'' @ fmt) [1..<Suc (numPages pdfDoc)]"
    using mapE_map [OF m, of cp_filename "\<lambda>k. ''page-'' @ show_nat k @ ''.'' @ fmt"]
      convertOnePage_fields by blast
  then have b: "map cp_filename ps =
      map (\<lambda>k. ''page-'' @ show_nat k @ ''.'' @ fmt) [1..<Suc (length ps)]"
    by (simp only: len)
  have "map (nameToPage \<circ> cp_filename) ps = map nameToPage (map cp_filename ps)"
    by (simp only: map_map)
  also have "\<dots> = map nameToPage
      (map (\<lambda>k. ''page-'' @ show_nat k @ ''.'' @ fmt) [1..<Suc (length ps)])"
    using b by (rule arg_cong)
  also have "\<dots> = map (\<lambda>k. nameToPage (''page-'' @ show_nat k @ ''.'' @ fmt)) [1..<Suc (length ps)]"
    by (simp only: map_map o_def)
  also have "\<dots> = [1..<Suc (length ps)]"
    by (simp only: nameToPage_dot list.map_ident)
  finally have c: "map (nameToPage \<circ> cp_filename) ps = [1..<Suc (length ps)]" .
  show ?thesis
    using a b c by (intro conjI)
qed

lemma list_all2_map_eq: "list_all2 (\<lambda>x y. g y = x) xs ys \<Longrightarrow> map g ys = xs"
  by (induction rule: list_all2_induct) auto

lemma convertOnePage_iff:
  "convertOnePage rasterize pdfDoc fmt scl qual k = Inr p \<longleftrightarrow>
   (\<exists>page. getPage pdfDoc k = Inr page \<and>
      convertPageToImage rasterize page fmt scl qual = Inr (cp_buffer p) \<and>
      cp_pageNumber p = k \<and> cp_filename p = ''page-'' @ show_nat k @ ''.'' @ fmt)"
  by (cases p) (auto simp: convertOnePage_def split: sum.splits)

lemma convertPdfToImages_iff:
  "convertPdfToImages getDocument rasterize pdfBuffer fmt = Inr ps \<longleftrightarrow>
   (\<exists>pdfDoc. getDocument pdfBuffer = Inr pdfDoc \<and>
      list_all2 (\<lambda>k p. \<exists>page. getPage pdfDoc k = Inr page \<and>
           convertPageToImage rasterize page fmt defaultScale defaultQuality = Inr (cp_buffer p) \<and>
           cp_pageNumber p = k \<and> cp_filename p = ''page-'' @ show_nat k @ ''.'' @ fmt)
        [1..<Suc (numPages pdfDoc)] ps)"
proof (cases "getDocument pdfBuffer")
  case (Inl e)
  then show ?thesis
    by (simp add: convertPdfToImages_def loadPdfDocument_def)
next
  case (Inr pdfDoc)
  define ks where "ks = [1..<Suc (numPages pdfDoc)]"
  have eq: "convertPdfToImages getDocument rasterize pdfBuffer fmt =
      (case mapE (convertOnePage rasterize pdfDoc fmt defaultScale defaultQuality) ks of
         Inl msg \<Rightarrow> Inl (''PDF conversion failed: '' @ msg)
       | Inr convertedPages \<Rightarrow> Inr convertedPages)"
    using Inr by (simp add: convertPdfToImages_def loadPdfDocument_def ks_def del: upt_Suc)
  have "convertPdfToImages getDocument rasterize pdfBuffer fmt = Inr ps \<longleftrightarrow>
      mapE (convertOnePage rasterize pdfDoc fmt defaultScale defaultQuality) ks = Inr ps"
    unfolding eq
    by (cases "mapE (convertOnePage rasterize pdfDoc fmt defaultScale defaultQuality) ks") simp_all
  also have "\<dots> \<longleftrightarrow> list_all2 (\<lambda>k p. \<exists>page. getPage pdfDoc k = Inr page \<and>
           convertPageToImage rasterize page fmt defaultScale defaultQuality = Inr (cp_buffer p) \<and>
           cp_pageNumber p = k \<and> cp_filename p = ''page-'' @ show_nat k @ ''.'' @ fmt) ks ps"
    by (simp only: mapE_Inr_iff convertOnePage_iff)
  finally show ?thesis
    using Inr unfolding ks_def by (simp del: upt_Suc)
qed

lemma extractOnePage_iff:
  "extractOnePage fsub lib pdfDoc k = Some (Inr c) \<longleftrightarrow>
   (\<exists>page found. getPage pdfDoc k = Inr page \<and>
      extractTextFromPage fsub page = Inr (textContent c) \<and>
      extractImagesFromPage lib page k = Some (Inr found) \<and>
      images c = fst found \<and> pageNumber c = k \<and> distinct (map ei_filename (images c)))"
  using extractImagesFromPage_distinct [of lib _ k]
  by (cases c) (auto simp: extractOnePage_def split: sum.splits option.splits)

lemma extractPdfContent_iff:
  "extractPdfContent fsub getDocument lib pdfBuffer = Some (Inr cs) \<longleftrightarrow>
   (\<exists>pdfDoc. getDocument pdfBuffer = Inr pdfDoc \<and>
      list_all2 (\<lambda>k c. \<exists>page found. getPage pdfDoc k = Inr page \<and>
           extractTextFromPage fsub page = Inr (textContent c) \<and>
           extractImagesFromPage lib page k = Some (Inr found) \<and>
           images c = fst found \<and> pageNumber c = k \<and> distinct (map ei_filename (images c)))
        [1..<Suc (numPages pdfDoc)] cs)"
proof (cases "getDocument pdfBuffer")
  case (Inl e)
  then show ?thesis
    by (simp add: extractPdfContent_def loadPdfDocument_def)
next
  case (Inr pdfDoc)
  define ks where "ks = [1..<Suc (numPages pdfDoc)]"
  have eq: "extractPdfContent fsub getDocument lib pdfBuffer =
      (case mapEO (extractOnePage fsub lib pdfDoc) ks of
         None \<Rightarrow> None
       | Some (Inl msg) \<Rightarrow> Some (Inl (''PDF content extraction failed: '' @ msg))
       | Some (Inr extractedContent) \<Rightarrow> Some (Inr extractedContent))"
    using Inr by (simp add: extractPdfContent_def loadPdfDocument_def ks_def del: upt_Suc)
  have "extractPdfContent fsub getDocument lib pdfBuffer = Some (Inr cs) \<longleftrightarrow>
      mapEO (extractOnePage fsub lib pdfDoc) ks = Some (Inr cs)"
    unfolding eq
    by (cases "mapEO (extractOnePage fsub lib pdfDoc) ks") (auto split: sum.splits)
  also have "\<dots> \<longleftrightarrow> list_all2 (\<lambda>k c. \<exists>page found. getPage pdfDoc k = Inr page \<and>
           extractTextFromPage fsub page = Inr (textContent c) \<and>
           extractImagesFromPage lib page k = Some (Inr found) \<and>
           images c = fst found \<and> pageNumber c = k \<and> distinct (map ei_filename (images c))) ks cs"
    by (simp only: mapEO_Inr_iff extractOnePage_iff)
  finally show ?thesis
    using Inr unfolding ks_def by (simp del: upt_Suc)
qed

lemma pageEntries_pages:
  "map (nameToPage \<circ> fst) (pageEntries c) = replicate (Suc (length (images c))) (pageNumber c)"
proof -
  have "map (nameToPage \<circ> fst) (pageEntries c) =
      nameToPage (''page-'' @ show_nat (pageNumber c) @ ''.txt'') #
      map (\<lambda>img. nameToPage (''page-'' @ show_nat (pageNumber c) @ ''-images/'' @ ei_filename img))
        (images c)"
    unfolding pageEntries_def by (simp only: list.map map_map o_def fst_conv)
  also have "\<dots> = pageNumber c # map (\<lambda>img. pageNumber c) (images c)"
    by (simp only: nameToPage_txt nameToPage_images)
  also have "\<dots> = replicate (Suc (length (images c))) (pageNumber c)"
    by (simp add: map_replicate_const)
  finally show ?thesis .
qed

lemma sorted_concat_replicate:
  "sorted (map f cs) \<Longrightarrow> sorted (concat (map (\<lambda>c. replicate (r c) (f c)) cs))"
proof (induction cs)
  case Nil
  show ?case by simp
next
  case (Cons c cs)
  have "\<forall>y \<in> set (concat (map (\<lambda>c. replicate (r c) (f c)) cs)). f c \<le> y"
    using Cons.prems by auto
  then show ?case
    using Cons by (simp add: sorted_append)
qed

lemma extractPdfContent_numbers:
  assumes "extractPdfContent fsub getDocument lib pdfBuffer = Some (Inr cs)"
  shows "map pageNumber cs = [1..<Suc (length cs)] \<and>
         sorted (map (nameToPage \<circ> fst) (concat (map pageEntries cs)))"
proof -
  have "\<exists>pdfDoc. getDocument pdfBuffer = Inr pdfDoc \<and>
      list_all2 (\<lambda>k c. \<exists>page found. getPage pdfDoc k = Inr page \<and>
           extractTextFromPage fsub page = Inr (textContent c) \<and>
           extractImagesFromPage lib page k = Some (Inr found) \<and>
           images c = fst found \<and> pageNumber c = k \<and> distinct (map ei_filename (images c)))
        [1..<Suc (numPages pdfDoc)] cs"
    using assms by (simp only: extractPdfContent_iff)
  then obtain pdfDoc where
    gd: "getDocument pdfBuffer = Inr pdfDoc" and
    m: "list_all2 (\<lambda>k c. \<exists>page found. getPage pdfDoc k = Inr page \<and>
           extractTextFromPage fsub page = Inr (textContent c) \<and>
           extractImagesFromPage lib page k = Some (Inr found) \<and>
           images c = fst found \<and> pageNumber c = k \<and> distinct (map ei_filename (images c)))
        [1..<Suc (numPages pdfDoc)] cs"
    by blast
  have "length [1..<Suc (numPages pdfDoc)] = length cs"
    using m by (rule list_all2_lengthD)
  then have len: "numPages pdfDoc = length cs"
    by (simp del: upt_Suc)
  have "list_all2 (\<lambda>k c. pageNumber c = k) [1..<Suc (numPages pdfDoc)] cs"
    using m by (rule list_all2_mono) blast
  then have "map pageNumber cs = [1..<Suc (numPages pdfDoc)]"
    by (rule list_all2_map_eq)
  then have a: "map pageNumber cs = [1..<Suc (length cs)]"
    by (simp only: len)
  have "map (nameToPage \<circ> fst) (concat (map pageEntries cs)) =
      concat (map (\<lambda>c. map (nameToPage \<circ> fst) (pageEntries c)) cs)"
    by (simp only: map_concat map_map o_def)
  also have "\<dots> = concat (map (\<lambda>c. replicate (Suc (length (images c))) (pageNumber c)) cs)"
    by (simp only: pageEntries_pages)
  finally have e: "map (nameToPage \<circ> fst) (concat (map pageEntries cs)) =
      concat (map (\<lambda>c. replicate (Suc (length (images c))) (pageNumber c)) cs)" .
  have "sorted (map pageNumber cs)"
    by (simp only: a sorted_upt)
  then have c: "sorted (map (nameToPage \<circ> fst) (concat (map pageEntries cs)))"
    using sorted_concat_replicate [of pageNumber cs "\<lambda>c. Suc (length (images c))"]
    by (simp only: e)
  show ?thesis
    using a c by (intro conjI)
qed

text \<open>
  Claim C8. In every output of convert and extract, page numbers are
  \<open>1, 2, ..., n\<close>; the entries of the archive appear in ascending page-number
  order, which is the order of the pages in the document; and within a page the
  file names of the extracted images are pairwise distinct.

  The first and the third statement say what the outputs of the two services
  are: \<^verbatim>\<open>convertPdfToImages\<close> returns \<open>ps\<close> exactly when the document loads and
  \<open>ps\<close> lists, for the page numbers \<open>1, ..., numPages\<close> in this order, the
  rendering of that page of the document, labelled with that number and named
  after it; \<^verbatim>\<open>extractPdfContent\<close> returns \<open>cs\<close> exactly when the document loads and
  \<open>cs\<close> lists, in the same order, the text and the images of that page, labelled
  with its number, the file names of its images being pairwise distinct. The
  second and the fourth say that the handlers answer with an archive exactly
  when the upload is there (and the format valid) and the service returns, and
  that the entries are then those of the pages in the order of the list: for
  convert one entry per page under the page's file name, for extract the text
  entry of a page followed by its images. The last two read the page number
  back from the names of the entries: \<open>1, ..., n\<close> for convert, ascending for
  extract.
\<close>

theorem c8_pages_numbered_and_entries_ordered:
  "(convertPdfToImages getDocument rasterize pdfBuffer fmt = Inr ps \<longleftrightarrow>
      (\<exists>pdfDoc. getDocument pdfBuffer = Inr pdfDoc \<and>
         list_all2 (\<lambda>k p. \<exists>page. getPage pdfDoc k = Inr page \<and>
              convertPageToImage rasterize page fmt defaultScale defaultQuality =
                Inr (cp_buffer p) \<and>
              cp_pageNumber p = k \<and> cp_filename p = ''page-'' @ show_nat k @ ''.'' @ fmt)
           [1..<Suc (numPages pdfDoc)] ps)) \<and>
   (convertHandler getDocument rasterize req = ZipArchive converted \<longleftrightarrow>
      (\<exists>f qs. pdfPart req = Some f \<and> isValidFormat (formatParam req) \<and>
         convertPdfToImages getDocument rasterize (buffer f) (formatParam req) = Inr qs \<and>
         converted = map (\<lambda>p. (cp_filename p, BinaryData (cp_buffer p))) qs)) \<and>
   (extractPdfContent fsub getDocument lib pdfBuffer = Some (Inr cs) \<longleftrightarrow>
      (\<exists>pdfDoc. getDocument pdfBuffer = Inr pdfDoc \<and>
         list_all2 (\<lambda>k c. \<exists>page found. getPage pdfDoc k = Inr page \<and>
              extractTextFromPage fsub page = Inr (textContent c) \<and>
              extractImagesFromPage lib page k = Some (Inr found) \<and>
              images c = fst found \<and> pageNumber c = k \<and>
              distinct (map ei_filename (images c)))
           [1..<Suc (numPages pdfDoc)] cs)) \<and>
   (extractHandler fsub getDocument lib req = ZipArchive extracted \<longleftrightarrow>
      (\<exists>f ds. pdfPart req = Some f \<and>
         extractPdfContent fsub getDocument lib (buffer f) = Some (Inr ds) \<and>
         extracted =
           concat (map (\<lambda>c. (''page-'' @ show_nat (pageNumber c) @ ''.txt'',
                              TextData (textContent c)) #
                             map (\<lambda>img. (''page-'' @ show_nat (pageNumber c) @ ''-images/'' @
                                          ei_filename img, BinaryData (ei_buffer img)))
                               (images c)) ds))) \<and>
   (case convertHandler getDocument rasterize req of
      ZipArchive entries \<Rightarrow> map (nameToPage \<circ> fst) entries = [1..<Suc (length entries)]
    | _ \<Rightarrow> True) \<and>
   (case extractHandler fsub getDocument lib req of
      ZipArchive entries \<Rightarrow> sorted (map (nameToPage \<circ> fst) entries)
    | _ \<Rightarrow> True)"
proof -
  have b: "convertHandler getDocument rasterize req = ZipArchive converted \<longleftrightarrow>
      (\<exists>f qs. pdfPart req = Some f \<and> isValidFormat (formatParam req) \<and>
         convertPdfToImages getDocument rasterize (buffer f) (formatParam req) = Inr qs \<and>
         converted = map (\<lambda>p. (cp_filename p, BinaryData (cp_buffer p))) qs)"
    by (auto simp: convertHandler_def split: option.splits sum.splits)
  have d: "extractHandler fsub getDocument lib req = ZipArchive extracted \<longleftrightarrow>
      (\<exists>f ds. pdfPart req = Some f \<and>
         extractPdfContent fsub getDocument lib (buffer f) = Some (Inr ds) \<and>
         extracted =
           concat (map (\<lambda>c. (''page-'' @ show_nat (pageNumber c) @ ''.txt'',
                              TextData (textContent c)) #
                             map (\<lambda>img. (''page-'' @ show_nat (pageNumber c) @ ''-images/'' @
                                          ei_filename img, BinaryData (ei_buffer img)))
                               (images c)) ds))"
    unfolding extractHandler_def pageEntries_def
    by (auto split: option.splits sum.splits)
  have e: "(case convertHandler getDocument rasterize req of
      ZipArchive entries \<Rightarrow> map (nameToPage \<circ> fst) entries = [1..<Suc (length entries)]
    | _ \<Rightarrow> True)"
    using convertPdfToImages_numbers [of getDocument rasterize]
    by (auto simp: convertHandler_def o_def split: option.splits sum.splits)
  have f: "(case extractHandler fsub getDocument lib req of
      ZipArchive entries \<Rightarrow> sorted (map (nameToPage \<circ> fst) entries)
    | _ \<Rightarrow> True)"
    using extractPdfContent_numbers [of fsub getDocument lib]
    by (auto simp: extractHandler_def split: option.splits sum.splits)
  show ?thesis
    using convertPdfToImages_iff [of getDocument rasterize pdfBuffer fmt ps]
      extractPdfContent_iff [of fsub getDocument lib pdfBuffer cs] b d e f
    by (intro conjI)
qed

theorem c8_toy_document_witness:
  "convertPdfToImages toy_getDocument toy_rasterize (buffer toy_upload) ''png'' =
     Inr [\<lparr>cp_pageNumber = 1, cp_buffer = [0x89, 0x50, 0x2A, 0x2A], cp_filename = ''page-1.png''\<rparr>,
          \<lparr>cp_pageNumber = 2, cp_buffer = [0x89, 0x50, 0x2A], cp_filename = ''page-2.png''\<rparr>] \<and>
   convertHandler toy_getDocument toy_rasterize toy_request =
     ZipArchive
       [(''page-1.png'', BinaryData [0x89, 0x50, 0x2A, 0x2A]),
        (''page-2.png'', BinaryData [0x89, 0x50, 0x2A])] \<and>
   extractPdfContent toy_fsub toy_getDocument toy_canvas (buffer toy_upload) =
     Some (Inr
         [\<lparr>pageNumber = 1, textContent = ''Hello'' @ [CHR 0x0A] @ ''World'',
            images = [\<lparr>ei_buffer = [0xFF, 0xD8, 0xFF, 0xE0],
                       ei_filename = ''page-1-image-1.jpg'', ei_format = ''jpg''\<rparr>,
                      \<lparr>ei_buffer = [0x89, 0x50, 0x4E, 0x47, 0x0A, 0x14, 0x1E, 0xFF],
                       ei_filename = ''page-1-image-2.png'', ei_format = ''png''\<rparr>]\<rparr>,
          \<lparr>pageNumber = 2, textContent = ''Next'', images = []\<rparr>]) \<and>
   extractHandler toy_fsub toy_getDocument toy_canvas toy_request =
     ZipArchive
       [(''page-1.txt'', TextData (''Hello'' @ [CHR 0x0A] @ ''World'')),
        (''page-1-images/page-1-image-1.jpg'', BinaryData [0xFF, 0xD8, 0xFF, 0xE0]),
        (''page-1-images/page-1-image-2.png'',
         BinaryData [0x89, 0x50, 0x4E, 0x47, 0x0A, 0x14, 0x1E, 0xFF]),
        (''page-2.txt'', TextData ''Next'')] \<and>
   map (nameToPage \<circ> fst)
       [(''page-1.png'', BinaryData [0x89, 0x50, 0x2A, 0x2A]),
        (''page-2.png'', BinaryData [0x89, 0x50, 0x2A])] =
     [1..<Suc (length
       [(''page-1.png'', BinaryData [0x89, 0x50, 0x2A, 0x2A]),
        (''page-2.png'', BinaryData [0x89, 0x50, 0x2A])])] \<and>
   sorted (map (nameToPage \<circ> fst)
       [(''page-1.txt'', TextData (''Hello'' @ [CHR 0x0A] @ ''World'')),
        (''page-1-images/page-1-image-1.jpg'', BinaryData [0xFF, 0xD8, 0xFF, 0xE0]),
        (''page-1-images/page-1-image-2.png'',
         BinaryData [0x89, 0x50, 0x4E, 0x47, 0x0A, 0x14, 0x1E, 0xFF]),
        (''page-2.txt'', TextData ''Next'')])"
proof -
  note c8 = c8_pages_numbered_and_entries_ordered
      [where getDocument = toy_getDocument and rasterize = toy_rasterize
         and pdfBuffer = "buffer toy_upload" and fmt = "''png''" and fsub = toy_fsub
         and lib = toy_canvas and req = toy_request
         and ps = "[\<lparr>cp_pageNumber = 1, cp_buffer = [0x89, 0x50, 0x2A, 0x2A], cp_filename = ''page-1.png''\<rparr>,
          \<lparr>cp_pageNumber = 2, cp_buffer = [0x89, 0x50, 0x2A], cp_filename = ''page-2.png''\<rparr>]"
         and converted = "[(''page-1.png'', BinaryData [0x89, 0x50, 0x2A, 0x2A]),
        (''page-2.png'', BinaryData [0x89, 0x50, 0x2A])]"
         and cs = "[\<lparr>pageNumber = 1, textContent = ''Hello'' @ [CHR 0x0A] @ ''World'',
            images = [\<lparr>ei_buffer = [0xFF, 0xD8, 0xFF, 0xE0],
                       ei_filename = ''page-1-image-1.jpg'', ei_format = ''jpg''\<rparr>,
                      \<lparr>ei_buffer = [0x89, 0x50, 0x4E, 0x47, 0x0A, 0x14, 0x1E, 0xFF],
                       ei_filename = ''page-1-image-2.png'', ei_format = ''png''\<rparr>]\<rparr>,
          \<lparr>pageNumber = 2, textContent = ''Next'', images = []\<rparr>]"
         and extracted = "[(''page-1.txt'', TextData (''Hello'' @ [CHR 0x0A] @ ''World'')),
        (''page-1-images/page-1-image-1.jpg'', BinaryData [0xFF, 0xD8, 0xFF, 0xE0]),
        (''page-1-images/page-1-image-2.png'',
         BinaryData [0x89, 0x50, 0x4E, 0x47, 0x0A, 0x14, 0x1E, 0xFF]),
        (''page-2.txt'', TextData ''Next'')]"]
  have part: "pdfPart toy_request = Some toy_upload"
    by (simp add: toy_request_def)
  have fp: "formatParam toy_request = ''png''"
    by (simp add: formatParam_def toy_request_def)
  have v1: "convertPdfToImages toy_getDocument toy_rasterize (buffer toy_upload) ''png'' =
     Inr [\<lparr>cp_pageNumber = 1, cp_buffer = [0x89, 0x50, 0x2A, 0x2A], cp_filename = ''page-1.png''\<rparr>,
          \<lparr>cp_pageNumber = 2, cp_buffer = [0x89, 0x50, 0x2A], cp_filename = ''page-2.png''\<rparr>]"
    by code_simp
  have v3: "extractPdfContent toy_fsub toy_getDocument toy_canvas (buffer toy_upload) =
     Some (Inr
         [\<lparr>pageNumber = 1, textContent = ''Hello'' @ [CHR 0x0A] @ ''World'',
            images = [\<lparr>ei_buffer = [0xFF, 0xD8, 0xFF, 0xE0],
                       ei_filename = ''page-1-image-1.jpg'', ei_format = ''jpg''\<rparr>,
                      \<lparr>ei_buffer = [0x89, 0x50, 0x4E, 0x47, 0x0A, 0x14, 0x1E, 0xFF],
                       ei_filename = ''page-1-image-2.png'', ei_format = ''png''\<rparr>]\<rparr>,
          \<lparr>pageNumber = 2, textContent = ''Next'', images = []\<rparr>])"
    by code_simp
  have n1: "show_nat (Suc 0) = ''1''" and n2: "show_nat 2 = ''2''"
    by code_simp+
  have v2: "convertHandler toy_getDocument toy_rasterize toy_request =
     ZipArchive
       [(''page-1.png'', BinaryData [0x89, 0x50, 0x2A, 0x2A]),
        (''page-2.png'', BinaryData [0x89, 0x50, 0x2A])]"
    apply (rule c8 [THEN conjunct2, THEN conjunct1, THEN iffD2])
    apply (rule exI [of _ toy_upload])
    apply (rule exI [of _ "[\<lparr>cp_pageNumber = 1, cp_buffer = [0x89, 0x50, 0x2A, 0x2A], cp_filename = ''page-1.png''\<rparr>,
          \<lparr>cp_pageNumber = 2, cp_buffer = [0x89, 0x50, 0x2A], cp_filename = ''page-2.png''\<rparr>]"])
    apply (simp add: part fp isValidFormat_def v1)
    done
  have v4: "extractHandler toy_fsub toy_getDocument toy_canvas toy_request =
     ZipArchive
       [(''page-1.txt'', TextData (''Hello'' @ [CHR 0x0A] @ ''World'')),
        (''page-1-images/page-1-image-1.jpg'', BinaryData [0xFF, 0xD8, 0xFF, 0xE0]),
        (''page-1-images/page-1-image-2.png'',
         BinaryData [0x89, 0x50, 0x4E, 0x47, 0x0A, 0x14, 0x1E, 0xFF]),
        (''page-2.txt'', TextData ''Next'')]"
    apply (rule c8 [THEN conjunct2, THEN conjunct2, THEN conjunct2, THEN conjunct1, THEN iffD2])
    apply (rule exI [of _ toy_upload])
    apply (rule exI [of _ "[\<lparr>pageNumber = 1, textContent = ''Hello'' @ [CHR 0x0A] @ ''World'',
            images = [\<lparr>ei_buffer = [0xFF, 0xD8, 0xFF, 0xE0],
                       ei_filename = ''page-1-image-1.jpg'', ei_format = ''jpg''\<rparr>,
                      \<lparr>ei_buffer = [0x89, 0x50, 0x4E, 0x47, 0x0A, 0x14, 0x1E, 0xFF],
                       ei_filename = ''page-1-image-2.png'', ei_format = ''png''\<rparr>]\<rparr>,
          \<lparr>pageNumber = 2, textContent = ''Next'', images = []\<rparr>]"])
    apply (simp add: part v3 n1 n2)
    done
  have o1: "map (nameToPage \<circ> fst)
       [(''page-1.png'', BinaryData [0x89, 0x50, 0x2A, 0x2A]),
        (''page-2.png'', BinaryData [0x89, 0x50, 0x2A])] =
     [1..<Suc (length
       [(''page-1.png'', BinaryData [0x89, 0x50, 0x2A, 0x2A]),
        (''page-2.png'', BinaryData [0x89, 0x50, 0x2A])])]"
    using c8 [THEN conjunct2, THEN conjunct2, THEN conjunct2, THEN conjunct2, THEN conjunct1]
    by (simp only: v2 response.case)
  have o2: "sorted (map (nameToPage \<circ> fst)
       [(''page-1.txt'', TextData (''Hello'' @ [CHR 0x0A] @ ''World'')),
        (''page-1-images/page-1-image-1.jpg'', BinaryData [0xFF, 0xD8, 0xFF, 0xE0]),
        (''page-1-images/page-1-image-2.png'',
         BinaryData [0x89, 0x50, 0x4E, 0x47, 0x0A, 0x14, 0x1E, 0xFF]),
        (''page-2.txt'', TextData ''Next'')])"
    using c8 [THEN conjunct2, THEN conjunct2, THEN conjunct2, THEN conjunct2, THEN conjunct2]
    by (simp only: v4 response.case)
  show ?thesis
    using v1 v2 v3 v4 o1 o2 by (intro conjI)
qed

section \<open>Properties of the page-count pre-scan and its wiring\<close>

lemma unat_ascii: "map unat (ascii s) = lit s"
  by (simp add: ascii_def lit_def unat_of_nat)

lemma count_marker: "count_matches 0 (marker @ rest) = 1 + count_matches 0 rest"
  by (simp add: marker_def lit_def match_page_marker_def js_space_def eval_nat_numeral)

lemma count_markers: "count_matches 0 (concat (replicate n marker) @ rest) = n + count_matches 0 rest"
  by (induction n) (simp_all add: count_marker)

lemma count_header: "count_matches 0 (lit ''%PDF-1.4'' @ [10] @ rest) = count_matches 0 rest"
  by (simp add: lit_def match_page_marker_def)

lemma search_marker: "search_count_field (marker @ rest) = search_count_field rest"
  by (simp add: marker_def lit_def match_count_field_def)

lemma search_markers: "search_count_field (concat (replicate n marker) @ rest) = search_count_field rest"
  by (induction n) (simp_all add: search_marker)

lemma search_header: "search_count_field (lit ''%PDF-1.4'' @ [10] @ rest) = search_count_field rest"
  by (simp add: lit_def match_count_field_def)

lemma crafted_content:
  "map unat crafted_pdf = lit ''%PDF-1.4'' @ [10] @ concat (replicate 150 marker) @ []"
  by (simp add: crafted_pdf_def unat_ascii marker_def map_concat map_replicate)

lemma crafted_length: "length crafted_pdf = 1809"
  by (simp add: crafted_pdf_def ascii_def length_concat sum_list_replicate)

lemma crafted_complexity:
  assumes "toStringUtf8 crafted_pdf = map unat crafted_pdf"
  shows "validatePdfComplexity toStringUtf8 crafted_pdf 100 =
    \<lparr>valid = False, pageCount = Some 150, error = Some (TooManyPages 150 100)\<rparr>"
proof -
  have c: "count_matches 0 (map unat crafted_pdf) = 150"
    unfolding crafted_content by (simp only: count_header count_markers) simp
  have s: "search_count_field (map unat crafted_pdf) = None"
    unfolding crafted_content by (simp only: search_header search_markers) simp
  show ?thesis
    using assms c s by (simp add: validatePdfComplexity_def crafted_length Let_def)
qed

lemma crafted_valid_upload: "isValid (validatePdf crafted_pdf ''crafted.pdf'' ''application/pdf'')"
  by code_simp


lemma crafted_route_passes:
  "runChain pdfRouteChain handler crafted_request Map.empty =
     (handler crafted_request, [''10.0.0.1'' \<mapsto> 1])"
  using crafted_valid_upload
  by (simp add: pdfRouteChain_def dosProtection_def appDosConfig_def DEFAULT_DOS_CONFIG_def
      payloadSizeLimiter_def concurrentRequestLimiterMw_def concurrentRequestLimiter_def
      getCount_def requestTimeout_def uploadSingle_def validatePdfUpload_def
      crafted_request_def crafted_length MAX_FILE_SIZE_def)

text \<open>
  Claim C1. On every conversion or extraction call a PDF whose estimated page
  count exceeds the ceiling of 100 is rejected before the document is loaded; a
  buffer with 150 page markers is rejected.

  \<^verbatim>\<open>validatePdfComplexity\<close> does reject the crafted buffer (150 markers, ceiling
  100), and \<^verbatim>\<open>pdfComplexityMiddleware\<close> would answer it with status 400. But
  \<^verbatim>\<open>dosProtection\<close> does not contain that middleware and no route mounts it: the
  crafted upload passes the whole chain of \<^verbatim>\<open>POST /convert\<close> and of
  \<^verbatim>\<open>POST /extract\<close>, and the answer is whatever \<^verbatim>\<open>convertPdfToImages\<close> and
  \<^verbatim>\<open>extractPdfContent\<close> make of it after loading the document. (The hypothesis
  says that decoding the ASCII bytes of the crafted buffer gives the same code
  units.)
\<close>

theorem c1_page_limit_is_not_applied_on_the_routes:
  assumes "toStringUtf8 crafted_pdf = map unat crafted_pdf"
  shows "validatePdfComplexity toStringUtf8 crafted_pdf 100 =
           \<lparr>valid = False, pageCount = Some 150, error = Some (TooManyPages 150 100)\<rparr> \<and>
         pdfComplexityMiddleware toStringUtf8 100 crafted_request Map.empty =
           (Some (JsonError 400 ''PDF has too many pages (150). Maximum allowed is 100 pages.''),
            Map.empty) \<and>
         convertRoute getDocument rasterize crafted_request Map.empty =
           (case convertPdfToImages getDocument rasterize crafted_pdf ''png'' of
              Inl msg \<Rightarrow> NextError msg
            | Inr convertedPages \<Rightarrow>
                ZipArchive (map (\<lambda>page. (cp_filename page, BinaryData (cp_buffer page)))
                              convertedPages),
            [''10.0.0.1'' \<mapsto> 1]) \<and>
         extractRoute fsub getDocument lib crafted_request Map.empty =
           (case extractPdfContent fsub getDocument lib crafted_pdf of
              None \<Rightarrow> NoResponse
            | Some (Inl msg) \<Rightarrow> NextError msg
            | Some (Inr extractedContent) \<Rightarrow>
                ZipArchive (concat (map pageEntries extractedContent)),
            [''10.0.0.1'' \<mapsto> 1])"
proof -
  have cx: "validatePdfComplexity toStringUtf8 crafted_pdf 100 =
           \<lparr>valid = False, pageCount = Some 150, error = Some (TooManyPages 150 100)\<rparr>"
    using assms by (rule crafted_complexity [of toStringUtf8])
  have n150: "show_nat 150 = ''150''" and n100: "show_nat 100 = ''100''"
    by code_simp+
  have mw: "pdfComplexityMiddleware toStringUtf8 100 crafted_request Map.empty =
           (Some (JsonError 400 ''PDF has too many pages (150). Maximum allowed is 100 pages.''),
            Map.empty)"
    using cx n150 n100
    by (simp add: pdfComplexityMiddleware_def complexityMessage_def crafted_request_def)
  have conv: "convertHandler getDocument rasterize crafted_request =
      (case convertPdfToImages getDocument rasterize crafted_pdf ''png'' of
              Inl msg \<Rightarrow> NextError msg
            | Inr convertedPages \<Rightarrow>
                ZipArchive (map (\<lambda>page. (cp_filename page, BinaryData (cp_buffer page)))
                              convertedPages))"
    by (simp add: convertHandler_def formatParam_def crafted_request_def isValidFormat_def)
  have ext: "extractHandler fsub getDocument lib crafted_request =
      (case extractPdfContent fsub getDocument lib crafted_pdf of
              None \<Rightarrow> NoResponse
            | Some (Inl msg) \<Rightarrow> NextError msg
            | Some (Inr extractedContent) \<Rightarrow>
                ZipArchive (concat (map pageEntries extractedContent)))"
    by (simp add: extractHandler_def crafted_request_def)
  show ?thesis
    using cx mw
    by (simp add: convertRoute_def extractRoute_def crafted_route_passes conv ext)
qed

theorem c1_crafted_upload_witness:
  "map unat crafted_pdf = map unat crafted_pdf \<and>
   valid (validatePdfComplexity (map unat) crafted_pdf 100) = False \<and>
   fst (convertRoute toy_getDocument toy_rasterize crafted_request Map.empty) =
     ZipArchive [(''page-1.png'', BinaryData [0x89, 0x50, 0x2A, 0x2A]),
                 (''page-2.png'', BinaryData [0x89, 0x50, 0x2A])]"
proof -
  have v: "convertPdfToImages toy_getDocument toy_rasterize crafted_pdf ''png'' =
      Inr [\<lparr>cp_pageNumber = 1, cp_buffer = [0x89, 0x50, 0x2A, 0x2A],
            cp_filename = ''page-1.png''\<rparr>,
           \<lparr>cp_pageNumber = 2, cp_buffer = [0x89, 0x50, 0x2A], cp_filename = ''page-2.png''\<rparr>]"
    by code_simp
  show ?thesis
    using c1_page_limit_is_not_applied_on_the_routes
      [of "map unat" toy_getDocument toy_rasterize toy_fsub toy_canvas] v
    by simp
qed

end
